theory Spec2Isabelle
  imports Complex_Main "HOL-Library.AList"
begin

section \<open>Values of the dataset\<close>

text \<open>
  The reports (\<^verbatim>\<open>src/reports/__init__.py\<close>) work on a pandas DataFrame whose index is a
  DatetimeIndex. A timestamp is its number of nanoseconds since the epoch, a Timedelta a
  number of nanoseconds; \<open>None\<close> is NaT. A float is either NaN or a finite number. The
  arithmetic on finite floats is read exactly (a \<open>real\<close>): the rounding of binary64 and
  the infinities are not part of this model, NaN and its comparisons are. A finite value
  computed here can therefore differ from the program's in its last digit (23 flagged
  rows of 160 make percent_true 14.38 here and 14.37 in the program; the standard
  deviation of a constant column is 0 here and can be a tiny positive number there). The
  properties below do not rest on that arithmetic: they say which value is compared,
  which branch a value takes, when a value is NaN, and where a value is placed.
\<close>

datatype pyfloat = NaN | Fin real

fun isnan :: "pyfloat \<Rightarrow> bool" where
  "isnan NaN = True"
| "isnan (Fin x) = False"

fun py_mul :: "pyfloat \<Rightarrow> pyfloat \<Rightarrow> pyfloat" where
  "py_mul (Fin a) (Fin b) = Fin (a * b)"
| "py_mul a b = NaN"

fun py_sub :: "pyfloat \<Rightarrow> pyfloat \<Rightarrow> pyfloat" where
  "py_sub (Fin a) (Fin b) = Fin (a - b)"
| "py_sub a b = NaN"

fun py_add :: "pyfloat \<Rightarrow> pyfloat \<Rightarrow> pyfloat" where
  "py_add (Fin a) (Fin b) = Fin (a + b)"
| "py_add a b = NaN"

text \<open>Comparisons: every ordered comparison and \<open>==\<close> with a NaN operand is false.\<close>

fun py_gt :: "pyfloat \<Rightarrow> pyfloat \<Rightarrow> bool" where
  "py_gt (Fin a) (Fin b) = (b < a)"
| "py_gt a b = False"

fun py_lt :: "pyfloat \<Rightarrow> pyfloat \<Rightarrow> bool" where
  "py_lt (Fin a) (Fin b) = (a < b)"
| "py_lt a b = False"

fun py_le :: "pyfloat \<Rightarrow> pyfloat \<Rightarrow> bool" where
  "py_le (Fin a) (Fin b) = (a \<le> b)"
| "py_le a b = False"

fun py_ge :: "pyfloat \<Rightarrow> pyfloat \<Rightarrow> bool" where
  "py_ge (Fin a) (Fin b) = (b \<le> a)"
| "py_ge a b = False"

fun py_eq :: "pyfloat \<Rightarrow> pyfloat \<Rightarrow> bool" where
  "py_eq (Fin a) (Fin b) = (a = b)"
| "py_eq a b = False"

definition py_ne :: "pyfloat \<Rightarrow> pyfloat \<Rightarrow> bool" where
  "py_ne a b = (\<not> py_eq a b)"

text \<open>\<^verbatim>\<open>round(x, 2)\<close>: to the nearest multiple of 1/100, a tie to the even one; NaN stays NaN.
  The rounding is of the exact number, where the program rounds a binary64 value.\<close>

definition round_half_even :: "real \<Rightarrow> int" where
  "round_half_even x =
     (let f = \<lfloor>x\<rfloor>; d = x - of_int f
      in if d < 1 / 2 then f else if 1 / 2 < d then f + 1 else if even f then f else f + 1)"

fun py_round2 :: "pyfloat \<Rightarrow> pyfloat" where
  "py_round2 NaN = NaN"
| "py_round2 (Fin x) = Fin (of_int (round_half_even (x * 100)) / 100)"

text \<open>\<^verbatim>\<open>pd.Timedelta(hours=1)\<close> and \<^verbatim>\<open>pd.Timedelta(days=1)\<close>, in nanoseconds.\<close>

definition ns_per_hour :: int where
  "ns_per_hour = 3600000000000"

definition ns_per_day :: int where
  "ns_per_day = 86400000000000"

text \<open>Timedelta / Timedelta is a float.\<close>

definition td_div :: "int \<Rightarrow> int \<Rightarrow> pyfloat" where
  "td_div a b = Fin (of_int a / of_int b)"

section \<open>Columns\<close>

text \<open>A column has one dtype: bool, int64 or float64.\<close>

datatype column = BoolCol "bool list" | IntCol "int list" | FloatCol "pyfloat list"

datatype error = KeyError string | ValueError

fun col_len :: "column \<Rightarrow> nat" where
  "col_len (BoolCol bs) = length bs"
| "col_len (IntCol ns) = length ns"
| "col_len (FloatCol vs) = length vs"

definition bool_int :: "bool \<Rightarrow> int" where
  "bool_int b = (if b then 1 else 0)"

fun as_float :: "column \<Rightarrow> pyfloat list" where
  "as_float (BoolCol bs) = map (\<lambda>b. Fin (of_int (bool_int b))) bs"
| "as_float (IntCol ns) = map (\<lambda>n. Fin (of_int n)) ns"
| "as_float (FloatCol vs) = vs"

text \<open>C-style conversion of a float to an integer: towards zero.\<close>

definition trunc :: "real \<Rightarrow> int" where
  "trunc x = (if 0 \<le> x then \<lfloor>x\<rfloor> else \<lceil>x\<rceil>)"

fun float_to_int :: "pyfloat \<Rightarrow> int" where
  "float_to_int NaN = 0"
| "float_to_int (Fin x) = trunc x"

text \<open>\<^verbatim>\<open>Series.astype(int)\<close>: a float column holding a NaN raises (a ValueError).\<close>

fun astype_int :: "column \<Rightarrow> error + column" where
  "astype_int (BoolCol bs) = Inr (IntCol (map bool_int bs))"
| "astype_int (IntCol ns) = Inr (IntCol ns)"
| "astype_int (FloatCol vs) =
     (if list_ex isnan vs then Inl ValueError else Inr (IntCol (map float_to_int vs)))"

text \<open>\<^verbatim>\<open>series == 1\<close>, row by row.\<close>

fun eq_one :: "column \<Rightarrow> bool list" where
  "eq_one (BoolCol bs) = bs"
| "eq_one (IntCol ns) = map (\<lambda>n. n = 1) ns"
| "eq_one (FloatCol vs) = map (\<lambda>v. py_eq v (Fin 1)) vs"

text \<open>\<^verbatim>\<open>.where(cond)\<close>: the value where the condition holds, NaN elsewhere.\<close>

definition where_cond :: "pyfloat list \<Rightarrow> bool list \<Rightarrow> pyfloat list" where
  "where_cond vs cs = map2 (\<lambda>v c. if c then v else NaN) vs cs"

fun dropna :: "pyfloat list \<Rightarrow> real list" where
  "dropna [] = []"
| "dropna (NaN # vs) = dropna vs"
| "dropna (Fin x # vs) = x # dropna vs"

text \<open>\<^verbatim>\<open>.mean()\<close> skips NaN; with no value left it is NaN.\<close>

definition nanmean :: "pyfloat list \<Rightarrow> pyfloat" where
  "nanmean vs =
     (let xs = dropna vs
      in if xs = [] then NaN else Fin (sum_list xs / real (length xs)))"

text \<open>\<^verbatim>\<open>.std()\<close>: the sample standard deviation (ddof = 1) of the values that are not NaN;
  NaN when at most one is left. A finite result is the exact one, where the program's is
  the result of binary64 sums and a square root.\<close>

definition nanstd :: "pyfloat list \<Rightarrow> pyfloat" where
  "nanstd vs =
     (let xs = dropna vs; n = length xs
      in if n \<le> 1 then NaN
         else let avg = sum_list xs / real n
              in Fin (sqrt (sum_list (map (\<lambda>x. (x - avg)\<^sup>2) xs) / real (n - 1))))"

text \<open>\<^verbatim>\<open>index.to_series().diff()\<close>: the first delta is NaT, every other one is the time since
  the previous sample.\<close>

fun diff :: "int list \<Rightarrow> int option list" where
  "diff [] = []"
| "diff (t # ts) = None # map2 (\<lambda>a b. Some (b - a)) (t # ts) ts"

text \<open>\<^verbatim>\<open>delta * df[output_col]\<close>, row by row; NaT times anything is NaT. A boolean
  column multiplies as 0 and 1 (numpy's cast, as in the pandas releases before 3.0; inside
  \<^verbatim>\<open>create_report\<close> the flag column is an integer column by then). A float gives the
  product cut to whole nanoseconds, and NaT for a NaN.\<close>

fun td_mul_float :: "int option \<Rightarrow> pyfloat \<Rightarrow> int option" where
  "td_mul_float (Some d) (Fin r) = Some (trunc (of_int d * r))"
| "td_mul_float d v = None"

fun td_mul :: "int option list \<Rightarrow> column \<Rightarrow> int option list" where
  "td_mul ds (BoolCol bs) = map2 (\<lambda>d b. map_option (\<lambda>x. x * bool_int b) d) ds bs"
| "td_mul ds (IntCol ns) = map2 (\<lambda>d n. map_option (\<lambda>x. x * n) d) ds ns"
| "td_mul ds (FloatCol vs) = map2 td_mul_float ds vs"

text \<open>\<^verbatim>\<open>.sum()\<close> of a Timedelta series skips NaT; the sum of nothing is a zero Timedelta.\<close>

fun nansum_td :: "int option list \<Rightarrow> int" where
  "nansum_td [] = 0"
| "nansum_td (None # ds) = nansum_td ds"
| "nansum_td (Some d # ds) = d + nansum_td ds"

text \<open>\<^verbatim>\<open>index.hour\<close>: the hour of the day of a timestamp.\<close>

definition hour_of :: "int \<Rightarrow> int" where
  "hour_of t = (t div ns_per_hour) mod 24"

section \<open>The DataFrame\<close>

record dataframe =
  index :: "int list"
  columns :: "(string \<times> column) list"

text \<open>The index holds the timestamps of the rows (no NaT); the columns are kept in order,
  each under its name. \<^verbatim>\<open>df[name]\<close> raises KeyError for a missing column;
  \<^verbatim>\<open>df[name] = col\<close> replaces the column in place, or appends a new one.\<close>

definition df_get :: "dataframe \<Rightarrow> string \<Rightarrow> error + column" where
  "df_get df name =
     (case map_of (columns df) name of None \<Rightarrow> Inl (KeyError name) | Some c \<Rightarrow> Inr c)"

definition df_set :: "dataframe \<Rightarrow> string \<Rightarrow> column \<Rightarrow> dataframe" where
  "df_set df name c = df\<lparr>columns := AList.update name c (columns df)\<rparr>"

text \<open>Every column of a DataFrame has one entry per row.\<close>

definition df_wf :: "dataframe \<Rightarrow> bool" where
  "df_wf df = list_all (\<lambda>(name, c). col_len c = length (index df)) (columns df)"

section \<open>Figures\<close>

text \<open>
  \<^verbatim>\<open>ax.hist(x)\<close> is called with no \<^verbatim>\<open>bins\<close> argument: matplotlib then takes its default
  (\<^verbatim>\<open>rcParams["hist.bins"]\<close>, 10) and numpy.histogram cuts the range from the least to the
  greatest value into that many buckets of equal width, the last one closed on the
  right. A range of width zero is widened by 1/2 on each side; no data gives the range
  from 0 to 1.
\<close>

definition mpl_hist_bins :: nat where
  "mpl_hist_bins = 10"

definition hist_range :: "real list \<Rightarrow> real \<times> real" where
  "hist_range xs =
     (case xs of
        [] \<Rightarrow> (0, 1)
      | x # ys \<Rightarrow>
          (let lo = fold min ys x; hi = fold max ys x
           in if lo = hi then (lo - 1 / 2, hi + 1 / 2) else (lo, hi)))"

definition bin_index :: "nat \<Rightarrow> real \<times> real \<Rightarrow> real \<Rightarrow> nat" where
  "bin_index nb r x =
     (let i = nat \<lfloor>(x - fst r) / (snd r - fst r) * real nb\<rfloor>
      in if i = nb then nb - 1 else i)"

definition histogram :: "nat \<Rightarrow> real list \<Rightarrow> nat list" where
  "histogram nb xs =
     (let r = hist_range xs
      in map (\<lambda>b. length (filter (\<lambda>x. bin_index nb r x = b) xs)) [0..<nb])"

text \<open>A figure is what was drawn: the series of the time-series plot (the index and the
  plotted columns), or the bucket counts of the histogram. Rendering it to PNG bytes is
  matplotlib's work and stays opaque.\<close>

datatype figure =
    FanPlot "int list" column column column
  | TempPlot "int list" column column column column
  | HistPlot "nat list"

section \<open>The document\<close>

text \<open>
  A python-docx document is the list of what was added to it, in order. A run of text is
  a list of pieces: a literal, a formatted float of an f-string, or the text of
  \<^verbatim>\<open>str(df[col].describe())\<close> (count, mean, std, min, quartiles, max of the column),
  which stays opaque. \<open>None\<close> is the default style.
\<close>

datatype piece = Lit string | Val pyfloat | Describe column

datatype run = Run "piece list" "string option"

datatype image = ImageFile string | ImageOf figure

datatype element =
    Heading string nat
  | Paragraph "string option" "run list"
  | Picture image

definition bullet :: "piece list \<Rightarrow> element" where
  "bullet ps = Paragraph (Some ''List Bullet'') [Run ps None]"

definition empty_bullet :: element where
  "empty_bullet = Paragraph (Some ''List Bullet'') []"

definition empty_paragraph :: element where
  "empty_paragraph = Paragraph None []"

section \<open>FaultCodeOneReport\<close>

record fc1_config =
  vfd_speed_percent_err_thres :: real
  vfd_speed_percent_max :: real
  duct_static_inches_err_thres :: real
  duct_static_col :: string
  supply_vfd_speed_col :: string
  duct_static_setpoint_col :: string

text \<open>\<^verbatim>\<open>if output_col is None: output_col = "fc1_flag"\<close>\<close>

definition fc1_output_col :: "string option \<Rightarrow> string" where
  "fc1_output_col oc = (case oc of None \<Rightarrow> ''fc1_flag'' | Some c \<Rightarrow> c)"

text \<open>
  \<^verbatim>\<open>create_fan_plot\<close> first overwrites the flag column of the caller's DataFrame with its
  integer cast, then reads the plotted columns. An error carries the DataFrame as it is
  when the exception leaves the function.
\<close>

definition fc1_create_fan_plot ::
  "fc1_config \<Rightarrow> dataframe \<Rightarrow> string option \<Rightarrow> (error \<times> dataframe) + (dataframe \<times> figure)" where
  "fc1_create_fan_plot cfg df oc =
     (let output_col = fc1_output_col oc
      in case df_get df output_col of
           Inl e \<Rightarrow> Inl (e, df)
         | Inr flag \<Rightarrow>
             (case astype_int flag of
                Inl e \<Rightarrow> Inl (e, df)
              | Inr flag_int \<Rightarrow>
                  (let df1 = df_set df output_col flag_int
                   in case df_get df1 (duct_static_col cfg) of
                        Inl e \<Rightarrow> Inl (e, df1)
                      | Inr static \<Rightarrow>
                          (case df_get df1 (supply_vfd_speed_col cfg) of
                             Inl e \<Rightarrow> Inl (e, df1)
                           | Inr vfd \<Rightarrow>
                               (case df_get df1 output_col of
                                  Inl e \<Rightarrow> Inl (e, df1)
                                | Inr fault \<Rightarrow> Inr (df1, FanPlot (index df1) static vfd fault))))))"

text \<open>
  \<^verbatim>\<open>summarize_fault_times\<close> returns total_days, total_hours, hours_fc1_mode, percent_true,
  percent_false and flag_true_duct_static.
\<close>

definition fc1_summarize_fault_times ::
  "fc1_config \<Rightarrow> dataframe \<Rightarrow> string option \<Rightarrow>
     error + (pyfloat \<times> pyfloat \<times> pyfloat \<times> pyfloat \<times> pyfloat \<times> pyfloat)" where
  "fc1_summarize_fault_times cfg df oc =
     (let output_col = fc1_output_col oc;
          delta = diff (index df);
          total_days = py_round2 (td_div (nansum_td delta) ns_per_day);
          total_hours = td_div (nansum_td delta) ns_per_hour
      in case df_get df output_col of
           Inl e \<Rightarrow> Inl e
         | Inr flag \<Rightarrow>
             (let hours_fc1_mode = td_div (nansum_td (td_mul delta flag)) ns_per_hour;
                  percent_true = py_round2 (py_mul (nanmean (as_float flag)) (Fin 100));
                  percent_false = py_round2 (py_sub (Fin 100) percent_true)
              in case df_get df (duct_static_col cfg) of
                   Inl e \<Rightarrow> Inl e
                 | Inr static \<Rightarrow>
                     Inr (total_days, total_hours, hours_fc1_mode, percent_true, percent_false,
                          py_round2 (nanmean (where_cond (as_float static) (eq_one flag))))))"

text \<open>
  \<^verbatim>\<open>create_hist_plot\<close> writes the column \<^verbatim>\<open>hour_of_the_day_fc1\<close> into the DataFrame: the
  hour of the day where the flag equals 1, NaN elsewhere; the histogram is over the
  values that are not NaN.
\<close>

definition fc1_create_hist_plot ::
  "dataframe \<Rightarrow> string option \<Rightarrow> error + (dataframe \<times> figure)" where
  "fc1_create_hist_plot df oc =
     (case df_get df (fc1_output_col oc) of
        Inl e \<Rightarrow> Inl e
      | Inr flag \<Rightarrow>
          (let hours = where_cond (map (\<lambda>t. Fin (of_int (hour_of t))) (index df)) (eq_one flag);
               df1 = df_set df ''hour_of_the_day_fc1'' (FloatCol hours)
           in Inr (df1, HistPlot (histogram mpl_hist_bins (dropna hours)))))"

definition fc1_description :: string where
  "fc1_description = ''Fault condition one of ASHRAE Guideline 36 is related to flagging poor performance of a AHU variable supply fan attempting to control to a duct pressure setpoint. Fault condition equation as defined by ASHRAE:''"

definition fc1_percent_high :: string where
  "fc1_percent_high = ''The percent True metric that represents the amount of time for when the fault flag is True is high indicating the fan is running at high speeds and appearing to not generate good duct static pressure''"

definition fc1_percent_low :: string where
  "fc1_percent_low = ''The percent True metric that represents the amount of time for when the fault flag is True is low inidicating the fan appears to generate good duct static pressure''"

definition fc1_no_reset :: string where
  "fc1_no_reset = ''No duct pressure setpoint reset detected (BAD)''"

definition fc1_reset :: string where
  "fc1_reset = ''Duct pressure reset detected (Good)''"

text \<open>The five statistics bullets, the same in both reports.\<close>

definition statistics_bullets ::
  "pyfloat \<Rightarrow> pyfloat \<Rightarrow> pyfloat \<Rightarrow> pyfloat \<Rightarrow> pyfloat \<Rightarrow> element list" where
  "statistics_bullets total_days total_hours hours_mode percent_true percent_false =
     [bullet [Lit ''Total time in days calculated in dataset: '', Val total_days],
      bullet [Lit ''Total time in hours calculated in dataset: '', Val total_hours],
      bullet [Lit ''Total time in hours for when fault flag is True: '', Val hours_mode],
      bullet [Lit ''Percent of time in the dataset when the fault flag is True: '',
              Val percent_true, Lit ''%''],
      bullet [Lit ''Percent of time in the dataset when the fault flag is False: '',
              Val percent_false, Lit ''%'']]"

definition fc1_commentary :: "pyfloat \<Rightarrow> element" where
  "fc1_commentary flag_true_duct_static =
     bullet [Lit ''Average duct system pressure for when in fault condition (fan VFD speed > 95%): '',
             Val flag_true_duct_static, Lit (CHR 0x22 # ''WC'')]"

definition footer :: "string \<Rightarrow> element" where
  "footer now = Paragraph None [Run [Lit ''Report generated: '', Lit now] (Some ''Emphasis'')]"

text \<open>
  \<^verbatim>\<open>create_report\<close>. \<open>now\<close> is the text of \<^verbatim>\<open>time.ctime()\<close>; the \<^verbatim>\<open>path\<close> argument is only
  printed. The result is the DataFrame as the call leaves it together with the returned
  document; an error carries the DataFrame and the local document as they are when the
  exception leaves the function. A paragraph is added before the text of its run is
  computed, so a failing column lookup leaves the paragraph empty.
\<close>

definition fc1_create_report ::
  "fc1_config \<Rightarrow> string \<Rightarrow> dataframe \<Rightarrow> string option \<Rightarrow>
     (error \<times> dataframe \<times> element list) + (dataframe \<times> element list)" where
  "fc1_create_report cfg now df oc =
     (let doc1 = [Heading ''Fault Condition One Report'' 0,
                  Paragraph None [Run [Lit fc1_description] None],
                  Picture (ImageFile ''./images/fc1_definition.png''),
                  Heading ''Dataset Plot'' 2]
      in case fc1_create_fan_plot cfg df oc of
        Inl (e, df1) \<Rightarrow> Inl (e, df1, doc1)
      | Inr (df1, fig) \<Rightarrow>
     (let doc2 = doc1 @ [Picture (ImageOf fig), Heading ''Dataset Statistics'' 2]
      in case fc1_summarize_fault_times cfg df1 oc of
        Inl e \<Rightarrow> Inl (e, df1, doc2)
      | Inr (total_days, total_hours, hours_fc1_mode, percent_true, percent_false,
             flag_true_duct_static) \<Rightarrow>
     (let doc3 = doc2
            @ statistics_bullets total_days total_hours hours_fc1_mode percent_true percent_false
            @ [empty_paragraph, Heading ''Time-of-day Histogram Plots'' 2]
      in case fc1_create_hist_plot df1 oc of
        Inl e \<Rightarrow> Inl (e, df1, doc3)
      | Inr (df2, histogram_plot) \<Rightarrow>
     (let doc4 = doc3 @ [Picture (ImageOf histogram_plot)]
            @ (if \<not> isnan flag_true_duct_static
               then [fc1_commentary flag_true_duct_static] else [])
            @ [empty_paragraph, Heading ''VFD Speed Statistics'' 2]
      in case df_get df2 (supply_vfd_speed_col cfg) of
        Inl e \<Rightarrow> Inl (e, df2, doc4 @ [empty_bullet])
      | Inr vfd \<Rightarrow>
     (let doc5 = doc4 @ [bullet [Describe vfd], Heading ''Duct Pressure Statistics'' 2]
      in case df_get df2 (duct_static_col cfg) of
        Inl e \<Rightarrow> Inl (e, df2, doc5 @ [empty_bullet])
      | Inr static \<Rightarrow>
     (let doc6 = doc5 @ [bullet [Describe static],
                         Heading ''Duct Pressure Setpoints Statistics'' 2]
      in case df_get df2 (duct_static_setpoint_col cfg) of
        Inl e \<Rightarrow> Inl (e, df2, doc6 @ [empty_bullet])
      | Inr setpoint \<Rightarrow>
     (let doc7 = doc6 @ [bullet [Describe setpoint],
                         Heading ''Suggestions based on data analysis'' 2,
                         bullet [Lit (if py_gt percent_true (Fin 5)
                                      then fc1_percent_high else fc1_percent_low)]]
      in case df_get df2 (duct_static_setpoint_col cfg) of
        Inl e \<Rightarrow> Inl (e, df2, doc7 @ [empty_bullet])
      | Inr setpoint2 \<Rightarrow>
          Inr (df2, doc7 @ [bullet [Lit (if py_eq (nanstd (as_float setpoint2)) (Fin 0)
                                         then fc1_no_reset else fc1_reset)],
                            footer now]))))))))"

section \<open>FaultCodeTwoReport\<close>

record fc2_config =
  mix_degf_err_thres :: real
  return_degf_err_thres :: real
  outdoor_degf_err_thres :: real
  mat_col :: string
  rat_col :: string
  oat_col :: string

definition fc2_output_col :: "string option \<Rightarrow> string" where
  "fc2_output_col oc = (case oc of None \<Rightarrow> ''fc2_flag'' | Some c \<Rightarrow> c)"

definition fc2_create_plot ::
  "fc2_config \<Rightarrow> dataframe \<Rightarrow> string option \<Rightarrow> (error \<times> dataframe) + (dataframe \<times> figure)" where
  "fc2_create_plot cfg df oc =
     (let output_col = fc2_output_col oc
      in case df_get df output_col of
           Inl e \<Rightarrow> Inl (e, df)
         | Inr flag \<Rightarrow>
             (case astype_int flag of
                Inl e \<Rightarrow> Inl (e, df)
              | Inr flag_int \<Rightarrow>
                  (let df1 = df_set df output_col flag_int
                   in case df_get df1 (mat_col cfg) of
                        Inl e \<Rightarrow> Inl (e, df1)
                      | Inr mat \<Rightarrow>
                          (case df_get df1 (rat_col cfg) of
                             Inl e \<Rightarrow> Inl (e, df1)
                           | Inr rat \<Rightarrow>
                               (case df_get df1 (oat_col cfg) of
                                  Inl e \<Rightarrow> Inl (e, df1)
                                | Inr oat \<Rightarrow>
                                    (case df_get df1 output_col of
                                       Inl e \<Rightarrow> Inl (e, df1)
                                     | Inr fault \<Rightarrow>
                                         Inr (df1, TempPlot (index df1) mat rat oat fault)))))))"

text \<open>
  \<^verbatim>\<open>summarize_fault_times\<close> returns total_days, total_hours, hours_fc2_mode, percent_true,
  percent_false, flag_true_mat, flag_true_oat and flag_true_rat.
\<close>

definition fc2_summarize_fault_times ::
  "fc2_config \<Rightarrow> dataframe \<Rightarrow> string option \<Rightarrow>
     error + (pyfloat \<times> pyfloat \<times> pyfloat \<times> pyfloat \<times> pyfloat \<times> pyfloat \<times> pyfloat \<times> pyfloat)" where
  "fc2_summarize_fault_times cfg df oc =
     (let output_col = fc2_output_col oc;
          delta = diff (index df);
          total_days = py_round2 (td_div (nansum_td delta) ns_per_day);
          total_hours = td_div (nansum_td delta) ns_per_hour
      in case df_get df output_col of
           Inl e \<Rightarrow> Inl e
         | Inr flag \<Rightarrow>
             (let hours_fc2_mode = td_div (nansum_td (td_mul delta flag)) ns_per_hour;
                  percent_true = py_round2 (py_mul (nanmean (as_float flag)) (Fin 100));
                  percent_false = py_round2 (py_sub (Fin 100) percent_true)
              in case df_get df (mat_col cfg) of
                   Inl e \<Rightarrow> Inl e
                 | Inr mat \<Rightarrow>
                     (case df_get df (oat_col cfg) of
                        Inl e \<Rightarrow> Inl e
                      | Inr oat \<Rightarrow>
                          (case df_get df (rat_col cfg) of
                             Inl e \<Rightarrow> Inl e
                           | Inr rat \<Rightarrow>
                               Inr (total_days, total_hours, hours_fc2_mode, percent_true,
                                    percent_false,
                                    py_round2 (nanmean (where_cond (as_float mat) (eq_one flag))),
                                    py_round2 (nanmean (where_cond (as_float oat) (eq_one flag))),
                                    py_round2 (nanmean (where_cond (as_float rat) (eq_one flag))))))))"

definition fc2_create_hist_plot ::
  "dataframe \<Rightarrow> string option \<Rightarrow> error + (dataframe \<times> figure)" where
  "fc2_create_hist_plot df oc =
     (case df_get df (fc2_output_col oc) of
        Inl e \<Rightarrow> Inl e
      | Inr flag \<Rightarrow>
          (let hours = where_cond (map (\<lambda>t. Fin (of_int (hour_of t))) (index df)) (eq_one flag);
               df1 = df_set df ''hour_of_the_day_fc2'' (FloatCol hours)
           in Inr (df1, HistPlot (histogram mpl_hist_bins (dropna hours)))))"

definition fc2_description :: string where
  "fc2_description = ''Fault condition two and three of ASHRAE Guideline 36 is related to flagging mixing air temperatures of the AHU that are out of acceptable ranges. Fault condition 2 flags mixing air temperatures that are too low and fault condition 3 flags mixing temperatures that are too high when in comparision to return and outside air data. The mixing air temperatures in theory should always be in between the return and outside air temperatures ranges. Fault condition two equation as defined by ASHRAE:''"

definition fc2_out_of_calibration :: string where
  "fc2_out_of_calibration = ''The percent True of time in fault condition 2 or 3 is high indicating the AHU temperature sensors are out of calibration''"

definition fc2_within_calibration :: string where
  "fc2_within_calibration = ''The percent True of time is low inidicating the AHU temperature sensors are within calibration''"

text \<open>The degree sign of the source text, as its two UTF-8 bytes.\<close>

definition degree_f :: string where
  "degree_f = [CHR 0xC2, CHR 0xB0, CHR ''F'']"

definition fc2_commentary :: "pyfloat \<Rightarrow> pyfloat \<Rightarrow> pyfloat \<Rightarrow> element" where
  "fc2_commentary flag_true_mat flag_true_oat flag_true_rat =
     bullet [Lit ''When fault condition 2 is True the average mix air temp is '',
             Val flag_true_mat, Lit (degree_f @ '', outside air temp is ''),
             Val flag_true_oat, Lit (degree_f @ '', and return air temp is ''),
             Val flag_true_rat,
             Lit (degree_f @ ''. This could possibly help with pin pointing AHU operating conditions for when this fault is True.'')]"

definition fc2_create_report ::
  "fc2_config \<Rightarrow> string \<Rightarrow> dataframe \<Rightarrow> string option \<Rightarrow>
     (error \<times> dataframe \<times> element list) + (dataframe \<times> element list)" where
  "fc2_create_report cfg now df oc =
     (let doc1 = [Heading ''Fault Condition Two Report'' 0,
                  Paragraph None [Run [Lit fc2_description] None],
                  Picture (ImageFile ''./images/fc2_definition.png''),
                  Heading ''Dataset Plot'' 2]
      in case fc2_create_plot cfg df oc of
        Inl (e, df1) \<Rightarrow> Inl (e, df1, doc1)
      | Inr (df1, fig) \<Rightarrow>
     (let doc2 = doc1 @ [Picture (ImageOf fig), Heading ''Dataset Statistics'' 2]
      in case fc2_summarize_fault_times cfg df1 oc of
        Inl e \<Rightarrow> Inl (e, df1, doc2)
      | Inr (total_days, total_hours, hours_fc2_mode, percent_true, percent_false,
             flag_true_mat, flag_true_oat, flag_true_rat) \<Rightarrow>
     (let doc3 = doc2
            @ statistics_bullets total_days total_hours hours_fc2_mode percent_true percent_false
            @ [empty_paragraph, Heading ''Time-of-day Histogram Plots'' 2]
      in case fc2_create_hist_plot df1 oc of
        Inl e \<Rightarrow> Inl (e, df1, doc3)
      | Inr (df2, histogram_plot) \<Rightarrow>
     (let doc4 = doc3 @ [Picture (ImageOf histogram_plot)]
            @ (if \<not> isnan flag_true_mat
               then [fc2_commentary flag_true_mat flag_true_oat flag_true_rat] else [])
            @ [empty_paragraph, Heading ''Mix Temp Statistics'' 2]
      in case df_get df2 (mat_col cfg) of
        Inl e \<Rightarrow> Inl (e, df2, doc4 @ [empty_bullet])
      | Inr mat \<Rightarrow>
     (let doc5 = doc4 @ [bullet [Describe mat], Heading ''Return Temp Statistics'' 2]
      in case df_get df2 (rat_col cfg) of
        Inl e \<Rightarrow> Inl (e, df2, doc5 @ [empty_bullet])
      | Inr rat \<Rightarrow>
     (let doc6 = doc5 @ [bullet [Describe rat], Heading ''Outside Temp Statistics'' 2]
      in case df_get df2 (oat_col cfg) of
        Inl e \<Rightarrow> Inl (e, df2, doc6 @ [empty_bullet])
      | Inr oat \<Rightarrow>
          Inr (df2, doc6 @ [bullet [Describe oat],
                            Heading ''Suggestions based on data analysis'' 2,
                            bullet [Lit (if py_lt percent_true (Fin 5)
                                         then fc2_out_of_calibration
                                         else fc2_within_calibration)],
                            footer now])))))))"

section \<open>Notions used to state the properties\<close>

text \<open>The fields of the tuple that \<^verbatim>\<open>summarize_fault_times\<close> returns (of either report).\<close>

definition total_days_of :: "pyfloat \<times> 'a \<Rightarrow> pyfloat" where
  "total_days_of r = fst r"

definition total_hours_of :: "pyfloat \<times> pyfloat \<times> 'a \<Rightarrow> pyfloat" where
  "total_hours_of r = fst (snd r)"

definition flagged_hours_of :: "pyfloat \<times> pyfloat \<times> pyfloat \<times> 'a \<Rightarrow> pyfloat" where
  "flagged_hours_of r = fst (snd (snd r))"

definition percent_true_of :: "pyfloat \<times> pyfloat \<times> pyfloat \<times> pyfloat \<times> 'a \<Rightarrow> pyfloat" where
  "percent_true_of r = fst (snd (snd (snd r)))"

definition percent_false_of ::
  "pyfloat \<times> pyfloat \<times> pyfloat \<times> pyfloat \<times> pyfloat \<times> 'a \<Rightarrow> pyfloat" where
  "percent_false_of r = fst (snd (snd (snd (snd r))))"

text \<open>A flag column that holds only 0 and 1 (False and True).\<close>

definition flag01 :: "column \<Rightarrow> bool" where
  "flag01 c = list_all (\<lambda>v. v = Fin 0 \<or> v = Fin 1) (as_float c)"

text \<open>
  The flagged time as the specification words it: each interval between two consecutive
  samples counts when the flag at its leading (earlier) sample is set.
\<close>

fun leading_flagged_ns :: "int list \<Rightarrow> bool list \<Rightarrow> int" where
  "leading_flagged_ns (t # t' # ts) (f # fs) =
     (if f then t' - t else 0) + leading_flagged_ns (t' # ts) fs"
| "leading_flagged_ns ts fs = 0"

text \<open>The same sum with the flag taken at the trailing (later) sample of each interval.\<close>

fun trailing_flagged_ns :: "int list \<Rightarrow> bool list \<Rightarrow> int" where
  "trailing_flagged_ns (t # t' # ts) (f # f' # fs) =
     (if f' then t' - t else 0) + trailing_flagged_ns (t' # ts) (f' # fs)"
| "trailing_flagged_ns ts fs = 0"

text \<open>The hours of the day of the rows whose flag equals 1, in row order.\<close>

definition flagged_hours :: "int list \<Rightarrow> bool list \<Rightarrow> real list" where
  "flagged_hours ts fs = map (\<lambda>(t, f). of_int (hour_of t)) (filter snd (zip ts fs))"

text \<open>The elements of a document that follow a level-2 heading, up to the next heading.\<close>

fun is_heading :: "element \<Rightarrow> bool" where
  "is_heading (Heading h l) = True"
| "is_heading e = False"

fun is_list_bullet :: "element \<Rightarrow> bool" where
  "is_list_bullet (Paragraph style runs) = (style = Some ''List Bullet'')"
| "is_list_bullet e = False"

definition block_after :: "string \<Rightarrow> element list \<Rightarrow> element list" where
  "block_after h doc =
     takeWhile (\<lambda>e. \<not> is_heading e) (drop 1 (dropWhile (\<lambda>e. e \<noteq> Heading h 2) doc))"

text \<open>The DataFrame (the caller's object) as a call of \<^verbatim>\<open>create_report\<close> leaves it, whether
  it returns or raises.\<close>

fun frame_after ::
  "(error \<times> dataframe \<times> element list) + (dataframe \<times> element list) \<Rightarrow> dataframe" where
  "frame_after (Inl (e, df, doc)) = df"
| "frame_after (Inr (df, doc)) = df"

text \<open>
  The sections of a report in the order of the specification: title, description and
  reference image; time-series plot; statistics bullets; hour-of-day histogram; optional
  commentary; descriptive statistics per sensor; suggestions; footer.
\<close>

definition fc1_title_section :: "element list" where
  "fc1_title_section =
     [Heading ''Fault Condition One Report'' 0,
      Paragraph None [Run [Lit fc1_description] None],
      Picture (ImageFile ''./images/fc1_definition.png'')]"

definition fc2_title_section :: "element list" where
  "fc2_title_section =
     [Heading ''Fault Condition Two Report'' 0,
      Paragraph None [Run [Lit fc2_description] None],
      Picture (ImageFile ''./images/fc2_definition.png'')]"

definition time_series_section :: "figure \<Rightarrow> element list" where
  "time_series_section fig = [Heading ''Dataset Plot'' 2, Picture (ImageOf fig)]"

definition statistics_section ::
  "pyfloat \<Rightarrow> pyfloat \<Rightarrow> pyfloat \<Rightarrow> pyfloat \<Rightarrow> pyfloat \<Rightarrow> element list" where
  "statistics_section total_days total_hours hours_mode percent_true percent_false =
     Heading ''Dataset Statistics'' 2
     # statistics_bullets total_days total_hours hours_mode percent_true percent_false
     @ [empty_paragraph]"

definition histogram_section :: "figure \<Rightarrow> element list" where
  "histogram_section fig = [Heading ''Time-of-day Histogram Plots'' 2, Picture (ImageOf fig)]"

definition commentary_section :: "pyfloat \<Rightarrow> element \<Rightarrow> element list" where
  "commentary_section m par = (if isnan m then [] else [par]) @ [empty_paragraph]"

definition fc1_sensor_statistics :: "column \<Rightarrow> column \<Rightarrow> column \<Rightarrow> element list" where
  "fc1_sensor_statistics vfd static setpoint =
     [Heading ''VFD Speed Statistics'' 2, bullet [Describe vfd],
      Heading ''Duct Pressure Statistics'' 2, bullet [Describe static],
      Heading ''Duct Pressure Setpoints Statistics'' 2, bullet [Describe setpoint]]"

definition fc2_sensor_statistics :: "column \<Rightarrow> column \<Rightarrow> column \<Rightarrow> element list" where
  "fc2_sensor_statistics mat rat oat =
     [Heading ''Mix Temp Statistics'' 2, bullet [Describe mat],
      Heading ''Return Temp Statistics'' 2, bullet [Describe rat],
      Heading ''Outside Temp Statistics'' 2, bullet [Describe oat]]"

definition suggestions_section :: "string list \<Rightarrow> element list" where
  "suggestions_section msgs =
     Heading ''Suggestions based on data analysis'' 2 # map (\<lambda>s. bullet [Lit s]) msgs"

subsection \<open>Example datasets\<close>

definition ex_cfg1 :: fc1_config where
  "ex_cfg1 = \<lparr>vfd_speed_percent_err_thres = 5 / 100, vfd_speed_percent_max = 99 / 100,
      duct_static_inches_err_thres = 1 / 10, duct_static_col = ''duct_static'',
      supply_vfd_speed_col = ''supply_vfd_speed'',
      duct_static_setpoint_col = ''duct_static_setpoint''\<rparr>"

definition ex_cfg2 :: fc2_config where
  "ex_cfg2 = \<lparr>mix_degf_err_thres = 5, return_degf_err_thres = 2, outdoor_degf_err_thres = 5,
      mat_col = ''mat'', rat_col = ''rat'', oat_col = ''oat''\<rparr>"

text \<open>Two samples one hour apart, the fault flagged at the first one only.\<close>

definition ex_fc1_two :: dataframe where
  "ex_fc1_two = \<lparr>index = [0, 3600000000000],
      columns = [(''fc1_flag'', IntCol [1, 0]),
                 (''duct_static'', FloatCol [Fin (3 / 2), Fin (1 / 2)]),
                 (''supply_vfd_speed'', FloatCol [Fin 90, Fin 80]),
                 (''duct_static_setpoint'', FloatCol [Fin 1, Fin 1])]\<rparr>"

text \<open>The same dataset with a boolean flag column.\<close>

definition ex_fc1_bool :: dataframe where
  "ex_fc1_bool = \<lparr>index = [0, 3600000000000],
      columns = [(''fc1_flag'', BoolCol [True, False]),
                 (''duct_static'', FloatCol [Fin (3 / 2), Fin (1 / 2)]),
                 (''supply_vfd_speed'', FloatCol [Fin 90, Fin 80]),
                 (''duct_static_setpoint'', FloatCol [Fin 1, Fin 1])]\<rparr>"

text \<open>The same dataset without its setpoint column.\<close>

definition ex_fc1_no_setpoint :: dataframe where
  "ex_fc1_no_setpoint = \<lparr>index = [0, 3600000000000],
      columns = [(''fc1_flag'', IntCol [1, 0]),
                 (''duct_static'', FloatCol [Fin (3 / 2), Fin (1 / 2)]),
                 (''supply_vfd_speed'', FloatCol [Fin 90, Fin 80])]\<rparr>"

text \<open>The two-sample dataset with a setpoint that is missing (NaN) in its first row.\<close>

definition ex_fc1_nan_setpoint :: dataframe where
  "ex_fc1_nan_setpoint = \<lparr>index = [0, 3600000000000],
      columns = [(''fc1_flag'', IntCol [1, 0]),
                 (''duct_static'', FloatCol [Fin (3 / 2), Fin (1 / 2)]),
                 (''supply_vfd_speed'', FloatCol [Fin 90, Fin 80]),
                 (''duct_static_setpoint'', FloatCol [NaN, Fin 1])]\<rparr>"

text \<open>One sample, not flagged.\<close>

definition ex_fc1_single :: dataframe where
  "ex_fc1_single = \<lparr>index = [3600000000000],
      columns = [(''fc1_flag'', IntCol [0]),
                 (''duct_static'', FloatCol [Fin (1 / 2)]),
                 (''supply_vfd_speed'', FloatCol [Fin 80]),
                 (''duct_static_setpoint'', FloatCol [Fin 1])]\<rparr>"

text \<open>No sample at all.\<close>

definition ex_fc1_empty :: dataframe where
  "ex_fc1_empty = \<lparr>index = [],
      columns = [(''fc1_flag'', IntCol []),
                 (''duct_static'', FloatCol []),
                 (''supply_vfd_speed'', FloatCol []),
                 (''duct_static_setpoint'', FloatCol [])]\<rparr>"

text \<open>Two samples one hour apart for the second report, the fault flagged at the first.\<close>

definition ex_fc2_two :: dataframe where
  "ex_fc2_two = \<lparr>index = [0, 3600000000000],
      columns = [(''fc2_flag'', IntCol [1, 0]),
                 (''mat'', FloatCol [Fin 50, Fin 60]),
                 (''rat'', FloatCol [Fin 70, Fin 72]),
                 (''oat'', FloatCol [Fin 40, Fin 45])]\<rparr>"

text \<open>One sample for the second report, not flagged.\<close>

definition ex_fc2_single :: dataframe where
  "ex_fc2_single = \<lparr>index = [3600000000000],
      columns = [(''fc2_flag'', IntCol [0]),
                 (''mat'', FloatCol [Fin 55]),
                 (''rat'', FloatCol [Fin 70]),
                 (''oat'', FloatCol [Fin 40])]\<rparr>"

text \<open>The first configuration with the histogram's own column named as the setpoint column.\<close>

definition ex_cfg1_hour :: fc1_config where
  "ex_cfg1_hour = ex_cfg1\<lparr>duct_static_setpoint_col := ''hour_of_the_day_fc1''\<rparr>"

text \<open>A text of \<^verbatim>\<open>time.ctime()\<close>.\<close>

definition ex_now :: string where
  "ex_now = ''Wed Nov  4 12:00:00 2026''"

section \<open>Properties\<close>

subsection \<open>Flagged elapsed hours\<close>

text \<open>The first delta is NaT and is skipped; from the second row on, a row's delta is the
  time since the previous row, and it is multiplied by the flag of that same row.\<close>

lemma nansum_weighted_tail:
  assumes "length vs = length ts"
    and "\<And>d v. v \<in> set vs \<Longrightarrow> g (Some d) v = Some (if p v then d else 0)"
  shows "nansum_td (map2 g (map2 (\<lambda>a b. Some (b - a)) (t # ts) ts) vs)
         = trailing_flagged_ns (t # ts) (p v0 # map p vs)"
  using assms
proof (induction ts arbitrary: t v0 vs)
  case Nil
  then show ?case by simp
next
  case (Cons t' ts')
  then obtain v' vs' where vs: "vs = v' # vs'" by (cases vs) auto
  with Cons show ?case by simp
qed

lemma nansum_weighted:
  assumes "length vs = length idx"
    and "\<And>v. v \<in> set vs \<Longrightarrow> g None v = None"
    and "\<And>d v. v \<in> set vs \<Longrightarrow> g (Some d) v = Some (if p v then d else 0)"
  shows "nansum_td (map2 g (diff idx) vs) = trailing_flagged_ns idx (map p vs)"
proof (cases idx)
  case Nil
  with assms show ?thesis by simp
next
  case (Cons t ts)
  with assms(1) obtain v vs' where vs: "vs = v # vs'" by (cases vs) auto
  have "nansum_td (map2 g (map2 (\<lambda>a b. Some (b - a)) (t # ts) ts) vs')
         = trailing_flagged_ns (t # ts) (p v # map p vs')"
    using assms Cons vs by (intro nansum_weighted_tail) auto
  with Cons vs assms(2) show ?thesis by simp
qed

lemma td_mul_flag01:
  assumes "col_len flag = length idx" and "flag01 flag"
  shows "nansum_td (td_mul (diff idx) flag) = trailing_flagged_ns idx (eq_one flag)"
proof (cases flag)
  case (BoolCol bs)
  have "nansum_td (map2 (\<lambda>d b. map_option (\<lambda>x. x * bool_int b) d) (diff idx) bs)
        = trailing_flagged_ns idx (map (\<lambda>b. b) bs)"
    using assms BoolCol by (intro nansum_weighted) (auto simp: bool_int_def)
  with BoolCol show ?thesis by simp
next
  case (IntCol ns)
  have "nansum_td (map2 (\<lambda>d n. map_option (\<lambda>x. x * n) d) (diff idx) ns)
        = trailing_flagged_ns idx (map (\<lambda>n. n = 1) ns)"
    using assms IntCol by (intro nansum_weighted) (auto simp: flag01_def list_all_iff)
  with IntCol show ?thesis by simp
next
  case (FloatCol vs)
  have "nansum_td (map2 td_mul_float (diff idx) vs)
        = trailing_flagged_ns idx (map (\<lambda>v. py_eq v (Fin 1)) vs)"
    using assms FloatCol
    by (intro nansum_weighted) (fastforce simp: flag01_def list_all_iff trunc_def)+
  with FloatCol show ?thesis by simp
qed

lemma fc1_flagged_hours:
  "fc1_summarize_fault_times cfg df oc = Inr r \<Longrightarrow> df_get df (fc1_output_col oc) = Inr flag
   \<Longrightarrow> flagged_hours_of r = td_div (nansum_td (td_mul (diff (index df)) flag)) ns_per_hour"
  by (auto simp: fc1_summarize_fault_times_def flagged_hours_of_def Let_def split: sum.splits)

lemma fc2_flagged_hours:
  "fc2_summarize_fault_times cfg df oc = Inr r \<Longrightarrow> df_get df (fc2_output_col oc) = Inr flag
   \<Longrightarrow> flagged_hours_of r = td_div (nansum_td (td_mul (diff (index df)) flag)) ns_per_hour"
  by (auto simp: fc2_summarize_fault_times_def flagged_hours_of_def Let_def split: sum.splits)

text \<open>
  C1 (as amended). For every dataset whose flag column holds only 0 and 1, one entry per
  row, the flagged elapsed hours of \<^verbatim>\<open>summarize_fault_times\<close> (in both report classes) are
  the sum of the inter-sample deltas whose trailing sample is flagged: an interval counts
  if and only if the flag at the later of its two endpoint samples is 1.
\<close>

theorem flagged_hours_trailing_sample:
  "(fc1_summarize_fault_times cfg1 df1 oc1 = Inr r1
      \<and> df_get df1 (fc1_output_col oc1) = Inr flag1
      \<and> col_len flag1 = length (index df1) \<and> flag01 flag1
    \<longrightarrow> flagged_hours_of r1
          = td_div (trailing_flagged_ns (index df1) (eq_one flag1)) ns_per_hour)
   \<and> (fc2_summarize_fault_times cfg2 df2 oc2 = Inr r2
      \<and> df_get df2 (fc2_output_col oc2) = Inr flag2
      \<and> col_len flag2 = length (index df2) \<and> flag01 flag2
    \<longrightarrow> flagged_hours_of r2
          = td_div (trailing_flagged_ns (index df2) (eq_one flag2)) ns_per_hour)"
proof (intro conjI impI)
  assume "fc1_summarize_fault_times cfg1 df1 oc1 = Inr r1
      \<and> df_get df1 (fc1_output_col oc1) = Inr flag1
      \<and> col_len flag1 = length (index df1) \<and> flag01 flag1"
  then show "flagged_hours_of r1
      = td_div (trailing_flagged_ns (index df1) (eq_one flag1)) ns_per_hour"
    by (simp add: fc1_flagged_hours [of cfg1 df1 oc1 r1 flag1] td_mul_flag01)
next
  assume "fc2_summarize_fault_times cfg2 df2 oc2 = Inr r2
      \<and> df_get df2 (fc2_output_col oc2) = Inr flag2
      \<and> col_len flag2 = length (index df2) \<and> flag01 flag2"
  then show "flagged_hours_of r2
      = td_div (trailing_flagged_ns (index df2) (eq_one flag2)) ns_per_hour"
    by (simp add: fc2_flagged_hours [of cfg2 df2 oc2 r2 flag2] td_mul_flag01)
qed

lemma ex_fc1_two_summary:
  "fc1_summarize_fault_times ex_cfg1 ex_fc1_two None
     = Inr (Fin (1 / 25), Fin 1, Fin 0, Fin 50, Fin 50, Fin (3 / 2))"
  by (simp add: fc1_summarize_fault_times_def fc1_output_col_def ex_cfg1_def ex_fc1_two_def
      df_get_def td_div_def ns_per_day_def ns_per_hour_def nanmean_def where_cond_def
      round_half_even_def Let_def)

lemma ex_fc2_two_summary:
  "fc2_summarize_fault_times ex_cfg2 ex_fc2_two None
     = Inr (Fin (1 / 25), Fin 1, Fin 0, Fin 50, Fin 50, Fin 50, Fin 40, Fin 70)"
  by (simp add: fc2_summarize_fault_times_def fc2_output_col_def ex_cfg2_def ex_fc2_two_def
      df_get_def td_div_def ns_per_day_def ns_per_hour_def nanmean_def where_cond_def
      round_half_even_def Let_def)

theorem flagged_hours_trailing_sample_witness:
  "fc1_summarize_fault_times ex_cfg1 ex_fc1_two None
     = Inr (Fin (1 / 25), Fin 1, Fin 0, Fin 50, Fin 50, Fin (3 / 2))
   \<and> df_get ex_fc1_two (fc1_output_col None) = Inr (IntCol [1, 0])
   \<and> col_len (IntCol [1, 0]) = length (index ex_fc1_two) \<and> flag01 (IntCol [1, 0])
   \<and> flagged_hours_of (Fin (1 / 25), Fin 1, Fin 0, Fin 50, Fin 50, Fin (3 / 2))
       = td_div (trailing_flagged_ns (index ex_fc1_two) (eq_one (IntCol [1, 0]))) ns_per_hour
   \<and> fc2_summarize_fault_times ex_cfg2 ex_fc2_two None
     = Inr (Fin (1 / 25), Fin 1, Fin 0, Fin 50, Fin 50, Fin 50, Fin 40, Fin 70)
   \<and> df_get ex_fc2_two (fc2_output_col None) = Inr (IntCol [1, 0])
   \<and> col_len (IntCol [1, 0]) = length (index ex_fc2_two)
   \<and> flagged_hours_of (Fin (1 / 25), Fin 1, Fin 0, Fin 50, Fin 50, Fin 50, Fin 40, Fin 70)
       = td_div (trailing_flagged_ns (index ex_fc2_two) (eq_one (IntCol [1, 0]))) ns_per_hour"
proof -
  have a: "df_get ex_fc1_two (fc1_output_col None) = Inr (IntCol [1, 0])"
    by (simp add: df_get_def fc1_output_col_def ex_fc1_two_def)
  have b: "df_get ex_fc2_two (fc2_output_col None) = Inr (IntCol [1, 0])"
    by (simp add: df_get_def fc2_output_col_def ex_fc2_two_def)
  have c: "col_len (IntCol [1, 0]) = length (index ex_fc1_two)"
    "col_len (IntCol [1, 0]) = length (index ex_fc2_two)"
    by (simp_all add: ex_fc1_two_def ex_fc2_two_def)
  have d: "flag01 (IntCol [1, 0])"
    by (simp add: flag01_def)
  note t = flagged_hours_trailing_sample [of ex_cfg1 ex_fc1_two None _ "IntCol [1, 0]"
      ex_cfg2 ex_fc2_two None _ "IntCol [1, 0]"]
  from t ex_fc1_two_summary ex_fc2_two_summary a b c d show ?thesis
    by simp
qed

text \<open>
  The claim as stated, with the flag of the earlier endpoint, fails: for two samples one
  hour apart with flags 1 and 0 the code reports 0 flagged hours, where the leading-sample
  reading gives 1 hour.
\<close>

theorem flagged_hours_leading_sample_counterexample:
  "fc1_summarize_fault_times ex_cfg1 ex_fc1_two None
     = Inr (Fin (1 / 25), Fin 1, Fin 0, Fin 50, Fin 50, Fin (3 / 2))
   \<and> td_div (leading_flagged_ns (index ex_fc1_two) (eq_one (IntCol [1, 0]))) ns_per_hour = Fin 1
   \<and> flagged_hours_of (Fin (1 / 25), Fin 1, Fin 0, Fin 50, Fin 50, Fin (3 / 2)) \<noteq> Fin 1"
  using ex_fc1_two_summary
  by (simp add: ex_fc1_two_def td_div_def ns_per_hour_def flagged_hours_of_def)

subsection \<open>Percentages\<close>

text \<open>
  percent_true is the mean of the flag column times 100, rounded to 2 decimals, and
  percent_false is computed from percent_true alone, as 100 minus it, rounded again. With
  no entry in the flag column that is not NaN (an empty dataset), the mean is NaN and so
  are both percentages. Whether the two add up to exactly 100 for a column with a mean is
  a fact about the rounding of binary64, which this model does not have: nothing is
  stated about that sum here.
\<close>

lemma fc1_percentages:
  "fc1_summarize_fault_times cfg df oc = Inr r \<Longrightarrow> df_get df (fc1_output_col oc) = Inr flag
   \<Longrightarrow> percent_true_of r = py_round2 (py_mul (nanmean (as_float flag)) (Fin 100))
     \<and> percent_false_of r = py_round2 (py_sub (Fin 100) (percent_true_of r))"
  by (auto simp: fc1_summarize_fault_times_def percent_true_of_def percent_false_of_def
      Let_def split: sum.splits)

lemma fc2_percentages:
  "fc2_summarize_fault_times cfg df oc = Inr r \<Longrightarrow> df_get df (fc2_output_col oc) = Inr flag
   \<Longrightarrow> percent_true_of r = py_round2 (py_mul (nanmean (as_float flag)) (Fin 100))
     \<and> percent_false_of r = py_round2 (py_sub (Fin 100) (percent_true_of r))"
  by (auto simp: fc2_summarize_fault_times_def percent_true_of_def percent_false_of_def
      Let_def split: sum.splits)

lemma percentages_undefined:
  assumes "pt = py_round2 (py_mul (nanmean vs) (Fin 100))"
    and "pf = py_round2 (py_sub (Fin 100) pt)"
    and "dropna vs = []"
  shows "pt = NaN \<and> pf = NaN \<and> py_add pt pf = NaN"
  using assms by (simp add: nanmean_def)

lemma ex_fc1_empty_summary:
  "fc1_summarize_fault_times ex_cfg1 ex_fc1_empty None
     = Inr (Fin 0, Fin 0, Fin 0, NaN, NaN, NaN)"
  by (simp add: fc1_summarize_fault_times_def fc1_output_col_def ex_cfg1_def ex_fc1_empty_def
      df_get_def td_div_def ns_per_day_def ns_per_hour_def nanmean_def where_cond_def
      round_half_even_def Let_def)

subsection \<open>Duration sums\<close>

lemma nansum_diff_tail:
  "nansum_td (map2 (\<lambda>a b. Some (b - a)) (t # ts) ts) = sum_list (map2 (\<lambda>a b. b - a) (t # ts) ts)"
  by (induction ts arbitrary: t) simp_all

lemma nansum_diff: "nansum_td (diff idx) = sum_list (map2 (\<lambda>a b. b - a) idx (tl idx))"
  by (cases idx) (simp_all add: nansum_diff_tail)

lemma df_wf_col_len:
  "df_wf df \<Longrightarrow> df_get df name = Inr c \<Longrightarrow> col_len c = length (index df)"
  by (auto simp: df_wf_def df_get_def list_all_iff split: option.splits dest!: map_of_SomeD)

lemma col_len_0: "col_len c = 0 \<Longrightarrow> as_float c = [] \<and> eq_one c = []"
  by (cases c) simp_all

lemma td_mul_single: "nansum_td (td_mul [None] c) = 0"
proof (cases c)
  case (BoolCol bs)
  then show ?thesis by (cases bs) simp_all
next
  case (IntCol ns)
  then show ?thesis by (cases ns) simp_all
next
  case (FloatCol vs)
  then show ?thesis by (cases vs) simp_all
qed

lemma td_mul_empty: "td_mul [] c = []"
  by (cases c) simp_all

lemma py_round2_zero: "py_round2 (td_div 0 n) = Fin 0"
  by (simp add: td_div_def round_half_even_def)

lemma fc1_summarize_fault_times_returns:
  assumes "df_get df (fc1_output_col oc) = Inr flag"
    and "df_get df (duct_static_col cfg) = Inr static"
  shows "fc1_summarize_fault_times cfg df oc
    = Inr (py_round2 (td_div (nansum_td (diff (index df))) ns_per_day),
           td_div (nansum_td (diff (index df))) ns_per_hour,
           td_div (nansum_td (td_mul (diff (index df)) flag)) ns_per_hour,
           py_round2 (py_mul (nanmean (as_float flag)) (Fin 100)),
           py_round2 (py_sub (Fin 100) (py_round2 (py_mul (nanmean (as_float flag)) (Fin 100)))),
           py_round2 (nanmean (where_cond (as_float static) (eq_one flag))))"
  using assms by (simp add: fc1_summarize_fault_times_def Let_def)

text \<open>
  C4. The undefined first delta (NaT) is skipped by the sums, so the totals are the sum of
  the deltas between consecutive samples only. For a dataset whose required columns are
  present, \<^verbatim>\<open>summarize_fault_times\<close> returns without an error; with a single row the total
  days, total hours and flagged hours are zero; with no row the result is zero for the
  three durations and NaN for the percentages and the conditional mean.
\<close>

theorem duration_sums_skip_undefined:
  assumes "df_wf df"
    and "df_get df (fc1_output_col oc) = Inr flag"
    and "df_get df (duct_static_col cfg) = Inr static"
  shows "\<exists>r. fc1_summarize_fault_times cfg df oc = Inr r
    \<and> total_days_of r
        = py_round2 (td_div (sum_list (map2 (\<lambda>a b. b - a) (index df) (tl (index df)))) ns_per_day)
    \<and> total_hours_of r
        = td_div (sum_list (map2 (\<lambda>a b. b - a) (index df) (tl (index df)))) ns_per_hour
    \<and> (length (index df) = 1
        \<longrightarrow> total_days_of r = Fin 0 \<and> total_hours_of r = Fin 0 \<and> flagged_hours_of r = Fin 0)
    \<and> (index df = [] \<longrightarrow> r = (Fin 0, Fin 0, Fin 0, NaN, NaN, NaN))"
proof -
  let ?r = "(py_round2 (td_div (nansum_td (diff (index df))) ns_per_day),
           td_div (nansum_td (diff (index df))) ns_per_hour,
           td_div (nansum_td (td_mul (diff (index df)) flag)) ns_per_hour,
           py_round2 (py_mul (nanmean (as_float flag)) (Fin 100)),
           py_round2 (py_sub (Fin 100) (py_round2 (py_mul (nanmean (as_float flag)) (Fin 100)))),
           py_round2 (nanmean (where_cond (as_float static) (eq_one flag))))"
  have r: "fc1_summarize_fault_times cfg df oc = Inr ?r"
    using assms(2,3) by (rule fc1_summarize_fault_times_returns)
  have days: "total_days_of ?r
        = py_round2 (td_div (sum_list (map2 (\<lambda>a b. b - a) (index df) (tl (index df)))) ns_per_day)"
    by (simp add: total_days_of_def nansum_diff)
  have hours: "total_hours_of ?r
        = td_div (sum_list (map2 (\<lambda>a b. b - a) (index df) (tl (index df)))) ns_per_hour"
    by (simp add: total_hours_of_def nansum_diff)
  have single: "total_days_of ?r = Fin 0 \<and> total_hours_of ?r = Fin 0 \<and> flagged_hours_of ?r = Fin 0"
    if "length (index df) = 1"
  proof -
    from that obtain t where t: "index df = [t]"
      by (cases "index df") auto
    show ?thesis
      by (simp add: t total_days_of_def total_hours_of_def flagged_hours_of_def td_mul_single
          py_round2_zero) (simp add: td_div_def)
  qed
  have empty: "?r = (Fin 0, Fin 0, Fin 0, NaN, NaN, NaN)" if e: "index df = []"
  proof -
    have "col_len flag = 0"
      using df_wf_col_len [OF assms(1,2)] e by simp
    then have "as_float flag = []" "eq_one flag = []"
      by (simp_all add: col_len_0)
    then show ?thesis
      by (simp add: e td_mul_empty py_round2_zero nanmean_def where_cond_def)
        (simp add: td_div_def)
  qed
  from r days hours single empty show ?thesis
    by blast
qed

lemma ex_fc1_single_summary:
  "fc1_summarize_fault_times ex_cfg1 ex_fc1_single None
     = Inr (Fin 0, Fin 0, Fin 0, Fin 0, Fin 100, NaN)"
  by (simp add: fc1_summarize_fault_times_def fc1_output_col_def ex_cfg1_def ex_fc1_single_def
      df_get_def td_div_def ns_per_day_def ns_per_hour_def nanmean_def where_cond_def
      round_half_even_def Let_def)

theorem duration_sums_skip_undefined_witness:
  "df_wf ex_fc1_single \<and> length (index ex_fc1_single) = 1
   \<and> fc1_summarize_fault_times ex_cfg1 ex_fc1_single None
       = Inr (Fin 0, Fin 0, Fin 0, Fin 0, Fin 100, NaN)
   \<and> df_wf ex_fc1_empty \<and> index ex_fc1_empty = []
   \<and> fc1_summarize_fault_times ex_cfg1 ex_fc1_empty None
       = Inr (Fin 0, Fin 0, Fin 0, NaN, NaN, NaN)"
proof -
  have s: "df_wf ex_fc1_single" "length (index ex_fc1_single) = 1"
    "df_get ex_fc1_single (fc1_output_col None) = Inr (IntCol [0])"
    "df_get ex_fc1_single (duct_static_col ex_cfg1) = Inr (FloatCol [Fin (1 / 2)])"
    by (simp_all add: df_wf_def ex_fc1_single_def df_get_def fc1_output_col_def ex_cfg1_def)
  have e: "df_wf ex_fc1_empty" "index ex_fc1_empty = []"
    "df_get ex_fc1_empty (fc1_output_col None) = Inr (IntCol [])"
    "df_get ex_fc1_empty (duct_static_col ex_cfg1) = Inr (FloatCol [])"
    by (simp_all add: df_wf_def ex_fc1_empty_def df_get_def fc1_output_col_def ex_cfg1_def)
  from duration_sums_skip_undefined [OF s(1,3,4)] s(2)
  have "\<exists>r. fc1_summarize_fault_times ex_cfg1 ex_fc1_single None = Inr r
      \<and> total_days_of r = Fin 0 \<and> total_hours_of r = Fin 0 \<and> flagged_hours_of r = Fin 0"
    by blast
  moreover from duration_sums_skip_undefined [OF e(1,3,4)] e(2)
  have "fc1_summarize_fault_times ex_cfg1 ex_fc1_empty None
       = Inr (Fin 0, Fin 0, Fin 0, NaN, NaN, NaN)"
    by blast
  ultimately show ?thesis
    using s(1,2) e(1,2) ex_fc1_single_summary by blast
qed

subsection \<open>The hour-of-day histogram\<close>

lemma length_histogram: "length (histogram nb xs) = nb"
  by (simp add: histogram_def Let_def)

lemma fold_min_le: "fold min ys x \<le> (x::real) \<and> (\<forall>y\<in>set ys. fold min ys x \<le> y)"
proof (induction ys arbitrary: x)
  case Nil
  then show ?case by simp
next
  case (Cons y ys)
  have a: "fold min ys (min y x) \<le> min y x"
    and b: "\<forall>z\<in>set ys. fold min ys (min y x) \<le> z"
    using Cons [where x = "min y x"] by blast+
  from a have "fold min ys (min y x) \<le> x" "fold min ys (min y x) \<le> y"
    by linarith+
  with b show ?case by simp
qed

lemma fold_max_ge: "(x::real) \<le> fold max ys x \<and> (\<forall>y\<in>set ys. y \<le> fold max ys x)"
proof (induction ys arbitrary: x)
  case Nil
  then show ?case by simp
next
  case (Cons y ys)
  have a: "max y x \<le> fold max ys (max y x)"
    and b: "\<forall>z\<in>set ys. z \<le> fold max ys (max y x)"
    using Cons [where x = "max y x"] by blast+
  from a have "x \<le> fold max ys (max y x)" "y \<le> fold max ys (max y x)"
    by linarith+
  with b show ?case by simp
qed

lemma hist_range_bounds:
  "fst (hist_range xs) < snd (hist_range xs)
   \<and> (\<forall>x\<in>set xs. fst (hist_range xs) \<le> x \<and> x \<le> snd (hist_range xs))"
proof (cases xs)
  case Nil
  then show ?thesis by (simp add: hist_range_def)
next
  case (Cons x ys)
  let ?lo = "fold min ys x" and ?hi = "fold max ys x"
  have lo: "?lo \<le> x" "\<forall>y\<in>set ys. ?lo \<le> y"
    using fold_min_le [where ys = ys and x = x] by blast+
  have hi: "x \<le> ?hi" "\<forall>y\<in>set ys. y \<le> ?hi"
    using fold_max_ge [where ys = ys and x = x] by blast+
  have all: "\<forall>e\<in>set xs. ?lo \<le> e \<and> e \<le> ?hi"
    using lo hi Cons by simp
  show ?thesis
  proof (cases "?lo = ?hi")
    case True
    then have r: "hist_range xs = (?lo - 1 / 2, ?hi + 1 / 2)"
      using Cons by (simp add: hist_range_def Let_def)
    have "?lo - 1 / 2 < ?hi + 1 / 2"
      using True by simp
    moreover have "\<forall>e\<in>set xs. ?lo - 1 / 2 \<le> e \<and> e \<le> ?hi + 1 / 2"
      using all by fastforce
    ultimately show ?thesis
      by (simp only: r fst_conv snd_conv)
  next
    case False
    then have r: "hist_range xs = (?lo, ?hi)"
      using Cons by (simp add: hist_range_def Let_def)
    have "?lo \<le> ?hi" using lo(1) hi(1) by linarith
    with False have "?lo < ?hi" by linarith
    with all show ?thesis
      by (simp only: r fst_conv snd_conv)
  qed
qed

lemma bin_index_less:
  assumes "0 < nb" and "fst r < snd r" and "fst r \<le> x" and "x \<le> snd r"
  shows "bin_index nb r x < nb"
proof -
  let ?q = "(x - fst r) / (snd r - fst r) * real nb"
  have "(x - fst r) / (snd r - fst r) \<le> 1"
    using assms by (simp add: divide_le_eq)
  then have "?q \<le> 1 * real nb"
    by (intro mult_right_mono) simp_all
  then have "\<lfloor>?q\<rfloor> \<le> int nb"
    by (simp add: floor_le_iff)
  then have "nat \<lfloor>?q\<rfloor> \<le> nb"
    by simp
  with assms(1) show ?thesis
    by (auto simp: bin_index_def Let_def)
qed

lemma sum_list_indicator:
  "k < n \<Longrightarrow> sum_list (map (\<lambda>b. if k = b then 1 else 0) [0..<n]) = (1::nat)"
  by (simp add: interv_sum_list_conv_sum_set_nat)

lemma sum_list_bins:
  "\<forall>x\<in>set xs. f x < nb
   \<Longrightarrow> sum_list (map (\<lambda>b. length (filter (\<lambda>x. f x = b) xs)) [0..<nb]) = length xs"
proof (induction xs)
  case Nil
  then show ?case by simp
next
  case (Cons x xs)
  have "sum_list (map (\<lambda>b. length (filter (\<lambda>y. f y = b) (x # xs))) [0..<nb])
      = sum_list (map (\<lambda>b. (if f x = b then 1 else 0) + length (filter (\<lambda>y. f y = b) xs)) [0..<nb])"
    by (intro arg_cong [where f = sum_list] map_cong) auto
  also have "\<dots> = sum_list (map (\<lambda>b. if f x = b then 1 else 0) [0..<nb])
      + sum_list (map (\<lambda>b. length (filter (\<lambda>y. f y = b) xs)) [0..<nb])"
    by (simp add: sum_list_addf)
  also have "\<dots> = 1 + length xs"
    using Cons by (simp add: sum_list_indicator)
  finally show ?case by simp
qed

lemma sum_list_histogram: "0 < nb \<Longrightarrow> sum_list (histogram nb xs) = length xs"
  using hist_range_bounds [of xs]
  by (simp add: histogram_def Let_def sum_list_bins bin_index_less)

lemma histogram_empty: "histogram nb [] = replicate nb 0"
  by (simp add: histogram_def Let_def map_replicate_const)

lemma dropna_where_hours:
  "dropna (where_cond (map (\<lambda>t. Fin (of_int (hour_of t))) ts) fs) = flagged_hours ts fs"
proof (induction ts arbitrary: fs)
  case Nil
  then show ?case by (simp add: where_cond_def flagged_hours_def)
next
  case (Cons t ts)
  then show ?case
    by (cases fs) (simp_all add: where_cond_def flagged_hours_def)
qed

lemma length_flagged_hours:
  "length fs = length ts \<Longrightarrow> length (flagged_hours ts fs) = length (filter (\<lambda>f. f) fs)"
proof (induction ts arbitrary: fs)
  case Nil
  then show ?case by (simp add: flagged_hours_def)
next
  case (Cons t ts)
  then show ?case
    by (cases fs) (simp_all add: flagged_hours_def)
qed

lemma flagged_hours_none: "\<not> list_ex (\<lambda>f. f) fs \<Longrightarrow> flagged_hours ts fs = []"
  by (auto simp: flagged_hours_def list_ex_iff filter_empty_conv dest: set_zip_rightD)

lemma length_eq_one: "length (eq_one c) = col_len c"
  by (cases c) simp_all

lemma hour_of_range: "0 \<le> hour_of t \<and> hour_of t \<le> 23"
  by (simp add: hour_of_def)

lemma fc1_create_hist_plot_returns:
  assumes "df_get df (fc1_output_col oc) = Inr flag"
  shows "fc1_create_hist_plot df oc
    = Inr (df_set df ''hour_of_the_day_fc1''
             (FloatCol (where_cond (map (\<lambda>t. Fin (of_int (hour_of t))) (index df)) (eq_one flag))),
           HistPlot (histogram mpl_hist_bins (flagged_hours (index df) (eq_one flag))))"
  using assms by (simp add: fc1_create_hist_plot_def Let_def dropna_where_hours)

lemma fc2_create_hist_plot_returns:
  assumes "df_get df (fc2_output_col oc) = Inr flag"
  shows "fc2_create_hist_plot df oc
    = Inr (df_set df ''hour_of_the_day_fc2''
             (FloatCol (where_cond (map (\<lambda>t. Fin (of_int (hour_of t))) (index df)) (eq_one flag))),
           HistPlot (histogram mpl_hist_bins (flagged_hours (index df) (eq_one flag))))"
  using assms by (simp add: fc2_create_hist_plot_def Let_def dropna_where_hours)

lemma histogram_of_flagged:
  assumes "col_len flag = length ts"
  shows "length (histogram mpl_hist_bins (flagged_hours ts (eq_one flag))) = 10
    \<and> sum_list (histogram mpl_hist_bins (flagged_hours ts (eq_one flag)))
        = length (filter (\<lambda>f. f) (eq_one flag))
    \<and> (\<not> list_ex (\<lambda>f. f) (eq_one flag)
        \<longrightarrow> histogram mpl_hist_bins (flagged_hours ts (eq_one flag)) = replicate 10 0)"
proof -
  have "length (flagged_hours ts (eq_one flag)) = length (filter (\<lambda>f. f) (eq_one flag))"
    using assms by (simp add: length_flagged_hours length_eq_one)
  moreover have "mpl_hist_bins = 10" "0 < mpl_hist_bins"
    by (simp_all add: mpl_hist_bins_def)
  ultimately show ?thesis
    by (simp add: length_histogram sum_list_histogram flagged_hours_none histogram_empty)
qed

text \<open>
  C6 (as amended). \<^verbatim>\<open>create_hist_plot\<close> (in both report classes) builds the histogram from
  the hour of the day (0 to 23) of every row whose flag equals 1. The histogram has the
  ten buckets of the plotting default; its bucket counts sum to the number of flagged
  rows; when no row is flagged every count is zero. It returns without an error whenever
  the flag column exists.
\<close>

theorem hour_histogram_counts:
  "(df_get df1 (fc1_output_col oc1) = Inr flag1 \<and> col_len flag1 = length (index df1)
    \<longrightarrow> (\<exists>df' counts. fc1_create_hist_plot df1 oc1 = Inr (df', HistPlot counts)
          \<and> counts = histogram mpl_hist_bins (flagged_hours (index df1) (eq_one flag1))
          \<and> length counts = 10
          \<and> sum_list counts = length (filter (\<lambda>f. f) (eq_one flag1))
          \<and> (\<not> list_ex (\<lambda>f. f) (eq_one flag1) \<longrightarrow> counts = replicate 10 0)))
   \<and> (df_get df2 (fc2_output_col oc2) = Inr flag2 \<and> col_len flag2 = length (index df2)
    \<longrightarrow> (\<exists>df' counts. fc2_create_hist_plot df2 oc2 = Inr (df', HistPlot counts)
          \<and> counts = histogram mpl_hist_bins (flagged_hours (index df2) (eq_one flag2))
          \<and> length counts = 10
          \<and> sum_list counts = length (filter (\<lambda>f. f) (eq_one flag2))
          \<and> (\<not> list_ex (\<lambda>f. f) (eq_one flag2) \<longrightarrow> counts = replicate 10 0)))
   \<and> (\<forall>t. 0 \<le> hour_of t \<and> hour_of t \<le> 23)"
proof (intro conjI impI allI)
  assume a: "df_get df1 (fc1_output_col oc1) = Inr flag1 \<and> col_len flag1 = length (index df1)"
  from a fc1_create_hist_plot_returns [of df1 oc1 flag1]
    histogram_of_flagged [of flag1 "index df1"]
  show "\<exists>df' counts. fc1_create_hist_plot df1 oc1 = Inr (df', HistPlot counts)
          \<and> counts = histogram mpl_hist_bins (flagged_hours (index df1) (eq_one flag1))
          \<and> length counts = 10
          \<and> sum_list counts = length (filter (\<lambda>f. f) (eq_one flag1))
          \<and> (\<not> list_ex (\<lambda>f. f) (eq_one flag1) \<longrightarrow> counts = replicate 10 0)"
    by blast
next
  assume a: "df_get df2 (fc2_output_col oc2) = Inr flag2 \<and> col_len flag2 = length (index df2)"
  from a fc2_create_hist_plot_returns [of df2 oc2 flag2]
    histogram_of_flagged [of flag2 "index df2"]
  show "\<exists>df' counts. fc2_create_hist_plot df2 oc2 = Inr (df', HistPlot counts)
          \<and> counts = histogram mpl_hist_bins (flagged_hours (index df2) (eq_one flag2))
          \<and> length counts = 10
          \<and> sum_list counts = length (filter (\<lambda>f. f) (eq_one flag2))
          \<and> (\<not> list_ex (\<lambda>f. f) (eq_one flag2) \<longrightarrow> counts = replicate 10 0)"
    by blast
qed (simp_all add: hour_of_range)

lemma ex_fc1_two_hist:
  "fc1_create_hist_plot ex_fc1_two None
     = Inr (df_set ex_fc1_two ''hour_of_the_day_fc1'' (FloatCol [Fin 0, NaN]),
            HistPlot [0, 0, 0, 0, 0, 1, 0, 0, 0, 0])"
  by (simp add: fc1_create_hist_plot_def fc1_output_col_def ex_fc1_two_def df_get_def
      where_cond_def hour_of_def ns_per_hour_def histogram_def hist_range_def bin_index_def
      mpl_hist_bins_def upt_rec Let_def)

lemma ex_fc2_two_hist:
  "fc2_create_hist_plot ex_fc2_two None
     = Inr (df_set ex_fc2_two ''hour_of_the_day_fc2'' (FloatCol [Fin 0, NaN]),
            HistPlot [0, 0, 0, 0, 0, 1, 0, 0, 0, 0])"
  by (simp add: fc2_create_hist_plot_def fc2_output_col_def ex_fc2_two_def df_get_def
      where_cond_def hour_of_def ns_per_hour_def histogram_def hist_range_def bin_index_def
      mpl_hist_bins_def upt_rec Let_def)

theorem hour_histogram_counts_witness:
  "df_get ex_fc1_two (fc1_output_col None) = Inr (IntCol [1, 0])
   \<and> col_len (IntCol [1, 0]) = length (index ex_fc1_two)
   \<and> (\<exists>df' counts. fc1_create_hist_plot ex_fc1_two None = Inr (df', HistPlot counts)
        \<and> length counts = 10 \<and> sum_list counts = 1)
   \<and> df_get ex_fc2_two (fc2_output_col None) = Inr (IntCol [1, 0])
   \<and> col_len (IntCol [1, 0]) = length (index ex_fc2_two)
   \<and> (\<exists>df' counts. fc2_create_hist_plot ex_fc2_two None = Inr (df', HistPlot counts)
        \<and> length counts = 10 \<and> sum_list counts = 1)
   \<and> df_get ex_fc1_single (fc1_output_col None) = Inr (IntCol [0])
   \<and> col_len (IntCol [0]) = length (index ex_fc1_single)
   \<and> \<not> list_ex (\<lambda>f. f) (eq_one (IntCol [0]))
   \<and> (\<exists>df'. fc1_create_hist_plot ex_fc1_single None = Inr (df', HistPlot (replicate 10 0)))"
proof -
  have a: "df_get ex_fc1_two (fc1_output_col None) = Inr (IntCol [1, 0])"
    "col_len (IntCol [1, 0]) = length (index ex_fc1_two)"
    by (simp_all add: df_get_def fc1_output_col_def ex_fc1_two_def)
  have b: "df_get ex_fc2_two (fc2_output_col None) = Inr (IntCol [1, 0])"
    "col_len (IntCol [1, 0]) = length (index ex_fc2_two)"
    by (simp_all add: df_get_def fc2_output_col_def ex_fc2_two_def)
  have c: "df_get ex_fc1_single (fc1_output_col None) = Inr (IntCol [0])"
    "col_len (IntCol [0]) = length (index ex_fc1_single)"
    "\<not> list_ex (\<lambda>f. f) (eq_one (IntCol [0]))"
    by (simp_all add: df_get_def fc1_output_col_def ex_fc1_single_def)
  have d: "length (filter (\<lambda>f. f) (eq_one (IntCol [1, 0]))) = 1"
    by simp
  note t = hour_histogram_counts [of ex_fc1_two None "IntCol [1, 0]" ex_fc2_two None "IntCol [1, 0]"]
  note u = hour_histogram_counts [of ex_fc1_single None "IntCol [0]" ex_fc2_two None "IntCol [1, 0]"]
  have "\<exists>df' counts. fc1_create_hist_plot ex_fc1_two None = Inr (df', HistPlot counts)
        \<and> length counts = 10 \<and> sum_list counts = 1"
    using t a d by fastforce
  moreover have "\<exists>df' counts. fc2_create_hist_plot ex_fc2_two None = Inr (df', HistPlot counts)
        \<and> length counts = 10 \<and> sum_list counts = 1"
    using t b d by fastforce
  moreover have "\<exists>df'. fc1_create_hist_plot ex_fc1_single None = Inr (df', HistPlot (replicate 10 0))"
    using u c by fastforce
  ultimately show ?thesis
    using a b c by blast
qed

text \<open>
  The claim as stated asks for 24 buckets. \<^verbatim>\<open>ax.hist\<close> is called without \<^verbatim>\<open>bins\<close>, so the
  histogram of the two-sample dataset has ten buckets.
\<close>

theorem hour_histogram_buckets_counterexample:
  "fc1_create_hist_plot ex_fc1_two None
     = Inr (df_set ex_fc1_two ''hour_of_the_day_fc1'' (FloatCol [Fin 0, NaN]),
            HistPlot [0, 0, 0, 0, 0, 1, 0, 0, 0, 0])
   \<and> length [0, 0, 0, 0, 0, 1, 0, 0, 0, 0 :: nat] \<noteq> 24"
  using ex_fc1_two_hist by simp

subsection \<open>The stages of create_report\<close>

lemma fc1_create_report_document:
  assumes "fc1_create_fan_plot cfg df oc = Inr (df1, fig)"
    and "fc1_summarize_fault_times cfg df1 oc = Inr (td, th, hm, pt, pf, m)"
    and "fc1_create_hist_plot df1 oc = Inr (df2, h)"
    and "df_get df2 (supply_vfd_speed_col cfg) = Inr vfd"
    and "df_get df2 (duct_static_col cfg) = Inr static"
    and "df_get df2 (duct_static_setpoint_col cfg) = Inr sp"
  shows "fc1_create_report cfg now df oc
    = Inr (df2, fc1_title_section @ time_series_section fig
             @ statistics_section td th hm pt pf @ histogram_section h
             @ commentary_section m (fc1_commentary m)
             @ fc1_sensor_statistics vfd static sp
             @ suggestions_section
                 [if py_gt pt (Fin 5) then fc1_percent_high else fc1_percent_low,
                  if py_eq (nanstd (as_float sp)) (Fin 0) then fc1_no_reset else fc1_reset]
             @ [footer now])"
  using assms
  by (simp add: fc1_create_report_def Let_def fc1_title_section_def time_series_section_def
      statistics_section_def histogram_section_def commentary_section_def
      fc1_sensor_statistics_def suggestions_section_def)

lemma fc1_create_report_stages:
  assumes "fc1_create_report cfg now df oc = Inr (df2, doc)"
  shows "\<exists>df1 fig td th hm pt pf m h vfd static sp.
      fc1_create_fan_plot cfg df oc = Inr (df1, fig)
    \<and> fc1_summarize_fault_times cfg df1 oc = Inr (td, th, hm, pt, pf, m)
    \<and> fc1_create_hist_plot df1 oc = Inr (df2, h)
    \<and> df_get df2 (supply_vfd_speed_col cfg) = Inr vfd
    \<and> df_get df2 (duct_static_col cfg) = Inr static
    \<and> df_get df2 (duct_static_setpoint_col cfg) = Inr sp"
  using assms
  by (simp add: fc1_create_report_def Let_def split: sum.splits prod.splits)

lemma fc2_create_report_document:
  assumes "fc2_create_plot cfg df oc = Inr (df1, fig)"
    and "fc2_summarize_fault_times cfg df1 oc = Inr (td, th, hm, pt, pf, m, mo, mr)"
    and "fc2_create_hist_plot df1 oc = Inr (df2, h)"
    and "df_get df2 (mat_col cfg) = Inr mat"
    and "df_get df2 (rat_col cfg) = Inr rat"
    and "df_get df2 (oat_col cfg) = Inr oat"
  shows "fc2_create_report cfg now df oc
    = Inr (df2, fc2_title_section @ time_series_section fig
             @ statistics_section td th hm pt pf @ histogram_section h
             @ commentary_section m (fc2_commentary m mo mr)
             @ fc2_sensor_statistics mat rat oat
             @ suggestions_section
                 [if py_lt pt (Fin 5) then fc2_out_of_calibration else fc2_within_calibration]
             @ [footer now])"
  using assms
  by (simp add: fc2_create_report_def Let_def fc2_title_section_def time_series_section_def
      statistics_section_def histogram_section_def commentary_section_def
      fc2_sensor_statistics_def suggestions_section_def)

lemma fc2_create_report_stages:
  assumes "fc2_create_report cfg now df oc = Inr (df2, doc)"
  shows "\<exists>df1 fig td th hm pt pf m mo mr h mat rat oat.
      fc2_create_plot cfg df oc = Inr (df1, fig)
    \<and> fc2_summarize_fault_times cfg df1 oc = Inr (td, th, hm, pt, pf, m, mo, mr)
    \<and> fc2_create_hist_plot df1 oc = Inr (df2, h)
    \<and> df_get df2 (mat_col cfg) = Inr mat
    \<and> df_get df2 (rat_col cfg) = Inr rat
    \<and> df_get df2 (oat_col cfg) = Inr oat"
  using assms
  by (simp add: fc2_create_report_def Let_def split: sum.splits prod.splits)



subsection \<open>The reports of the example datasets\<close>

lemma ex_fc1_two_fan_plot:
  "fc1_create_fan_plot ex_cfg1 ex_fc1_two None
     = Inr (ex_fc1_two,
            FanPlot [0, 3600000000000] (FloatCol [Fin (3 / 2), Fin (1 / 2)])
              (FloatCol [Fin 90, Fin 80]) (IntCol [1, 0]))"
  by (simp add: fc1_create_fan_plot_def fc1_output_col_def ex_cfg1_def ex_fc1_two_def
      df_get_def df_set_def Let_def)

lemma ex_fc1_two_columns:
  "df_get (df_set ex_fc1_two ''hour_of_the_day_fc1'' (FloatCol [Fin 0, NaN]))
      (supply_vfd_speed_col ex_cfg1) = Inr (FloatCol [Fin 90, Fin 80])"
  "df_get (df_set ex_fc1_two ''hour_of_the_day_fc1'' (FloatCol [Fin 0, NaN]))
      (duct_static_col ex_cfg1) = Inr (FloatCol [Fin (3 / 2), Fin (1 / 2)])"
  "df_get (df_set ex_fc1_two ''hour_of_the_day_fc1'' (FloatCol [Fin 0, NaN]))
      (duct_static_setpoint_col ex_cfg1) = Inr (FloatCol [Fin 1, Fin 1])"
  by (simp_all add: df_get_def df_set_def ex_fc1_two_def ex_cfg1_def)

lemma ex_fc1_two_report:
  "fc1_create_report ex_cfg1 ex_now ex_fc1_two None
     = Inr (df_set ex_fc1_two ''hour_of_the_day_fc1'' (FloatCol [Fin 0, NaN]),
            fc1_title_section
            @ time_series_section
                (FanPlot [0, 3600000000000] (FloatCol [Fin (3 / 2), Fin (1 / 2)])
                   (FloatCol [Fin 90, Fin 80]) (IntCol [1, 0]))
            @ statistics_section (Fin (1 / 25)) (Fin 1) (Fin 0) (Fin 50) (Fin 50)
            @ histogram_section (HistPlot [0, 0, 0, 0, 0, 1, 0, 0, 0, 0])
            @ commentary_section (Fin (3 / 2)) (fc1_commentary (Fin (3 / 2)))
            @ fc1_sensor_statistics (FloatCol [Fin 90, Fin 80])
                (FloatCol [Fin (3 / 2), Fin (1 / 2)]) (FloatCol [Fin 1, Fin 1])
            @ suggestions_section [fc1_percent_high, fc1_no_reset]
            @ [footer ex_now])"
proof -
  have std: "nanstd [Fin 1, Fin 1] = Fin 0"
    by (simp add: nanstd_def)
  show ?thesis
    using fc1_create_report_document [OF ex_fc1_two_fan_plot ex_fc1_two_summary
        ex_fc1_two_hist ex_fc1_two_columns, of ex_now]
    by (simp add: std)
qed


subsection \<open>Blocks of the document\<close>

lemmas section_defs = fc1_title_section_def fc2_title_section_def time_series_section_def
  statistics_section_def histogram_section_def commentary_section_def
  fc1_sensor_statistics_def fc2_sensor_statistics_def suggestions_section_def
  statistics_bullets_def bullet_def empty_paragraph_def footer_def
  fc1_commentary_def fc2_commentary_def

lemma fc1_suggestions_block:
  "block_after ''Suggestions based on data analysis''
     (fc1_title_section @ time_series_section fig @ statistics_section td th hm pt pf
      @ histogram_section h @ commentary_section m par
      @ fc1_sensor_statistics vfd static sp @ suggestions_section msgs @ [footer now])
   = map (\<lambda>s. bullet [Lit s]) msgs @ [footer now]"
  if "\<not> is_heading par"
  using that by (cases par) (simp_all add: block_after_def section_defs takeWhile_map o_def)

lemma fc2_suggestions_block:
  "block_after ''Suggestions based on data analysis''
     (fc2_title_section @ time_series_section fig @ statistics_section td th hm pt pf
      @ histogram_section h @ commentary_section m par
      @ fc2_sensor_statistics mat rat oat @ suggestions_section msgs @ [footer now])
   = map (\<lambda>s. bullet [Lit s]) msgs @ [footer now]"
  if "\<not> is_heading par"
  using that by (cases par) (simp_all add: block_after_def section_defs takeWhile_map o_def)

lemma statistics_block:
  "block_after ''Dataset Statistics''
     (title @ time_series_section fig @ statistics_section td th hm pt pf
      @ histogram_section h @ rest)
   = statistics_bullets td th hm pt pf @ [empty_paragraph]"
  if "title = fc1_title_section \<or> title = fc2_title_section"
  using that by (auto simp: block_after_def section_defs)

lemma statistics_bullets_count:
  "length (filter is_list_bullet (statistics_bullets td th hm pt pf @ [empty_paragraph])) = 5"
  by (simp add: section_defs)


lemma ex_fc1_single_fan_plot:
  "fc1_create_fan_plot ex_cfg1 ex_fc1_single None
     = Inr (ex_fc1_single,
            FanPlot [3600000000000] (FloatCol [Fin (1 / 2)]) (FloatCol [Fin 80]) (IntCol [0]))"
  by (simp add: fc1_create_fan_plot_def fc1_output_col_def ex_cfg1_def ex_fc1_single_def
      df_get_def df_set_def Let_def)

lemma ex_fc1_single_hist:
  "fc1_create_hist_plot ex_fc1_single None
     = Inr (df_set ex_fc1_single ''hour_of_the_day_fc1'' (FloatCol [NaN]),
            HistPlot [0, 0, 0, 0, 0, 0, 0, 0, 0, 0])"
  by (simp add: fc1_create_hist_plot_def fc1_output_col_def ex_fc1_single_def df_get_def
      where_cond_def histogram_def hist_range_def bin_index_def mpl_hist_bins_def upt_rec
      Let_def)

lemma ex_fc1_single_columns:
  "df_get (df_set ex_fc1_single ''hour_of_the_day_fc1'' (FloatCol [NaN]))
      (supply_vfd_speed_col ex_cfg1) = Inr (FloatCol [Fin 80])"
  "df_get (df_set ex_fc1_single ''hour_of_the_day_fc1'' (FloatCol [NaN]))
      (duct_static_col ex_cfg1) = Inr (FloatCol [Fin (1 / 2)])"
  "df_get (df_set ex_fc1_single ''hour_of_the_day_fc1'' (FloatCol [NaN]))
      (duct_static_setpoint_col ex_cfg1) = Inr (FloatCol [Fin 1])"
  by (simp_all add: df_get_def df_set_def ex_fc1_single_def ex_cfg1_def)

lemma ex_fc1_single_report:
  "fc1_create_report ex_cfg1 ex_now ex_fc1_single None
     = Inr (df_set ex_fc1_single ''hour_of_the_day_fc1'' (FloatCol [NaN]),
            fc1_title_section
            @ time_series_section
                (FanPlot [3600000000000] (FloatCol [Fin (1 / 2)]) (FloatCol [Fin 80]) (IntCol [0]))
            @ statistics_section (Fin 0) (Fin 0) (Fin 0) (Fin 0) (Fin 100)
            @ histogram_section (HistPlot [0, 0, 0, 0, 0, 0, 0, 0, 0, 0])
            @ commentary_section NaN (fc1_commentary NaN)
            @ fc1_sensor_statistics (FloatCol [Fin 80]) (FloatCol [Fin (1 / 2)]) (FloatCol [Fin 1])
            @ suggestions_section [fc1_percent_low, fc1_reset]
            @ [footer ex_now])"
proof -
  have std: "nanstd [Fin 1] = NaN"
    by (simp add: nanstd_def)
  show ?thesis
    using fc1_create_report_document [OF ex_fc1_single_fan_plot ex_fc1_single_summary
        ex_fc1_single_hist ex_fc1_single_columns, of ex_now]
    by (simp add: std)
qed

lemma ex_fc2_two_plot:
  "fc2_create_plot ex_cfg2 ex_fc2_two None
     = Inr (ex_fc2_two,
            TempPlot [0, 3600000000000] (FloatCol [Fin 50, Fin 60])
              (FloatCol [Fin 70, Fin 72]) (FloatCol [Fin 40, Fin 45]) (IntCol [1, 0]))"
  by (simp add: fc2_create_plot_def fc2_output_col_def ex_cfg2_def ex_fc2_two_def
      df_get_def df_set_def Let_def)

lemma ex_fc2_two_report:
  "fc2_create_report ex_cfg2 ex_now ex_fc2_two None
     = Inr (df_set ex_fc2_two ''hour_of_the_day_fc2'' (FloatCol [Fin 0, NaN]),
            fc2_title_section
            @ time_series_section
                (TempPlot [0, 3600000000000] (FloatCol [Fin 50, Fin 60])
                   (FloatCol [Fin 70, Fin 72]) (FloatCol [Fin 40, Fin 45]) (IntCol [1, 0]))
            @ statistics_section (Fin (1 / 25)) (Fin 1) (Fin 0) (Fin 50) (Fin 50)
            @ histogram_section (HistPlot [0, 0, 0, 0, 0, 1, 0, 0, 0, 0])
            @ commentary_section (Fin 50) (fc2_commentary (Fin 50) (Fin 40) (Fin 70))
            @ fc2_sensor_statistics (FloatCol [Fin 50, Fin 60])
                (FloatCol [Fin 70, Fin 72]) (FloatCol [Fin 40, Fin 45])
            @ suggestions_section [fc2_within_calibration]
            @ [footer ex_now])"
proof -
  have cols: "df_get (df_set ex_fc2_two ''hour_of_the_day_fc2'' (FloatCol [Fin 0, NaN]))
        (mat_col ex_cfg2) = Inr (FloatCol [Fin 50, Fin 60])"
    "df_get (df_set ex_fc2_two ''hour_of_the_day_fc2'' (FloatCol [Fin 0, NaN]))
        (rat_col ex_cfg2) = Inr (FloatCol [Fin 70, Fin 72])"
    "df_get (df_set ex_fc2_two ''hour_of_the_day_fc2'' (FloatCol [Fin 0, NaN]))
        (oat_col ex_cfg2) = Inr (FloatCol [Fin 40, Fin 45])"
    by (simp_all add: df_get_def df_set_def ex_fc2_two_def ex_cfg2_def)
  show ?thesis
    using fc2_create_report_document [OF ex_fc2_two_plot ex_fc2_two_summary ex_fc2_two_hist cols,
        of ex_now]
    by simp
qed

lemma ex_fc2_single_summary:
  "fc2_summarize_fault_times ex_cfg2 ex_fc2_single None
     = Inr (Fin 0, Fin 0, Fin 0, Fin 0, Fin 100, NaN, NaN, NaN)"
  by (simp add: fc2_summarize_fault_times_def fc2_output_col_def ex_cfg2_def ex_fc2_single_def
      df_get_def td_div_def ns_per_day_def ns_per_hour_def nanmean_def where_cond_def
      round_half_even_def Let_def)

lemma ex_fc2_single_plot:
  "fc2_create_plot ex_cfg2 ex_fc2_single None
     = Inr (ex_fc2_single,
            TempPlot [3600000000000] (FloatCol [Fin 55]) (FloatCol [Fin 70])
              (FloatCol [Fin 40]) (IntCol [0]))"
  by (simp add: fc2_create_plot_def fc2_output_col_def ex_cfg2_def ex_fc2_single_def
      df_get_def df_set_def Let_def)

lemma ex_fc2_single_report:
  "fc2_create_report ex_cfg2 ex_now ex_fc2_single None
     = Inr (df_set ex_fc2_single ''hour_of_the_day_fc2'' (FloatCol [NaN]),
            fc2_title_section
            @ time_series_section
                (TempPlot [3600000000000] (FloatCol [Fin 55]) (FloatCol [Fin 70])
                   (FloatCol [Fin 40]) (IntCol [0]))
            @ statistics_section (Fin 0) (Fin 0) (Fin 0) (Fin 0) (Fin 100)
            @ histogram_section (HistPlot [0, 0, 0, 0, 0, 0, 0, 0, 0, 0])
            @ commentary_section NaN (fc2_commentary NaN NaN NaN)
            @ fc2_sensor_statistics (FloatCol [Fin 55]) (FloatCol [Fin 70]) (FloatCol [Fin 40])
            @ suggestions_section [fc2_out_of_calibration]
            @ [footer ex_now])"
proof -
  have hist: "fc2_create_hist_plot ex_fc2_single None
     = Inr (df_set ex_fc2_single ''hour_of_the_day_fc2'' (FloatCol [NaN]),
            HistPlot [0, 0, 0, 0, 0, 0, 0, 0, 0, 0])"
    by (simp add: fc2_create_hist_plot_def fc2_output_col_def ex_fc2_single_def df_get_def
        where_cond_def histogram_def hist_range_def bin_index_def mpl_hist_bins_def upt_rec
        Let_def)
  have cols: "df_get (df_set ex_fc2_single ''hour_of_the_day_fc2'' (FloatCol [NaN]))
        (mat_col ex_cfg2) = Inr (FloatCol [Fin 55])"
    "df_get (df_set ex_fc2_single ''hour_of_the_day_fc2'' (FloatCol [NaN]))
        (rat_col ex_cfg2) = Inr (FloatCol [Fin 70])"
    "df_get (df_set ex_fc2_single ''hour_of_the_day_fc2'' (FloatCol [NaN]))
        (oat_col ex_cfg2) = Inr (FloatCol [Fin 40])"
    by (simp_all add: df_get_def df_set_def ex_fc2_single_def ex_cfg2_def)
  show ?thesis
    using fc2_create_report_document [OF ex_fc2_single_plot ex_fc2_single_summary hist cols,
        of ex_now]
    by simp
qed


subsection \<open>Suggestions\<close>

lemma not_heading_commentary:
  "\<not> is_heading (fc1_commentary m)" "\<not> is_heading (fc2_commentary m mo mr)"
  by (simp_all add: fc1_commentary_def fc2_commentary_def bullet_def)

lemma fc1_report_suggestions:
  assumes "fc1_create_report cfg now df oc = Inr (df2, doc)"
    and "fc1_create_fan_plot cfg df oc = Inr (df1, fig)"
    and "fc1_summarize_fault_times cfg df1 oc = Inr r"
    and "df_get df2 (duct_static_setpoint_col cfg) = Inr sp"
  shows "block_after ''Suggestions based on data analysis'' doc
    = [bullet [Lit (if py_gt (percent_true_of r) (Fin 5)
                    then fc1_percent_high else fc1_percent_low)],
       bullet [Lit (if py_eq (nanstd (as_float sp)) (Fin 0) then fc1_no_reset else fc1_reset)],
       footer now]"
proof -
  from fc1_create_report_stages [OF assms(1)] assms(2,3,4)
  obtain td th hm pt pf m h vfd static where
    s: "fc1_summarize_fault_times cfg df1 oc = Inr (td, th, hm, pt, pf, m)"
      "fc1_create_hist_plot df1 oc = Inr (df2, h)"
      "df_get df2 (supply_vfd_speed_col cfg) = Inr vfd"
      "df_get df2 (duct_static_col cfg) = Inr static"
    by auto
  from s(1) assms(3) have pt: "percent_true_of r = pt"
    by (auto simp: percent_true_of_def)
  from fc1_create_report_document [OF assms(2) s assms(4), of now] assms(1)
  show ?thesis
    by (auto simp: fc1_suggestions_block not_heading_commentary pt)
qed

lemma fc2_report_suggestions:
  assumes "fc2_create_report cfg now df oc = Inr (df2, doc)"
    and "fc2_create_plot cfg df oc = Inr (df1, fig)"
    and "fc2_summarize_fault_times cfg df1 oc = Inr r"
  shows "block_after ''Suggestions based on data analysis'' doc
    = [bullet [Lit (if py_lt (percent_true_of r) (Fin 5)
                    then fc2_out_of_calibration else fc2_within_calibration)],
       footer now]"
proof -
  from fc2_create_report_stages [OF assms(1)] assms(2,3)
  obtain td th hm pt pf m mo mr h mat rat oat where
    s: "fc2_summarize_fault_times cfg df1 oc = Inr (td, th, hm, pt, pf, m, mo, mr)"
      "fc2_create_hist_plot df1 oc = Inr (df2, h)"
      "df_get df2 (mat_col cfg) = Inr mat"
      "df_get df2 (rat_col cfg) = Inr rat"
      "df_get df2 (oat_col cfg) = Inr oat"
    by auto
  from s(1) assms(3) have pt: "percent_true_of r = pt"
    by (auto simp: percent_true_of_def)
  from fc2_create_report_document [OF assms(2) s, of now] assms(1)
  show ?thesis
    by (auto simp: fc2_suggestions_block not_heading_commentary pt)
qed

lemma py_le_not_gt: "py_le a b \<Longrightarrow> \<not> py_gt a b"
  by (cases a; cases b) simp_all

lemma py_ge_not_lt: "py_ge a b \<Longrightarrow> \<not> py_lt a b"
  by (cases a; cases b) simp_all

text \<open>
  C2. The suggestions of \<^verbatim>\<open>create_report\<close> follow the threshold table. In the first
  report, with percent_true the value that \<^verbatim>\<open>summarize_fault_times\<close> computes inside the
  call: percent_true > 5.0 gives the poor-performance message and percent_true <= 5.0 the
  good-performance message; a standard deviation of the setpoint column equal to 0 gives
  "No duct pressure setpoint reset detected (BAD)" and one different from 0 gives "Duct
  pressure reset detected (Good)". In the second report percent_true < 5.0 gives the
  out-of-calibration message and percent_true >= 5.0 the within-calibration message.
\<close>

theorem suggestion_thresholds:
  "(fc1_create_report cfg1 now1 df1 oc1 = Inr (dfa, doc1)
      \<and> fc1_create_fan_plot cfg1 df1 oc1 = Inr (dfb, fig1)
      \<and> fc1_summarize_fault_times cfg1 dfb oc1 = Inr r1
      \<and> df_get dfa (duct_static_setpoint_col cfg1) = Inr sp
    \<longrightarrow> (py_gt (percent_true_of r1) (Fin 5)
          \<longrightarrow> block_after ''Suggestions based on data analysis'' doc1 ! 0
              = bullet [Lit fc1_percent_high])
        \<and> (py_le (percent_true_of r1) (Fin 5)
          \<longrightarrow> block_after ''Suggestions based on data analysis'' doc1 ! 0
              = bullet [Lit fc1_percent_low])
        \<and> (py_eq (nanstd (as_float sp)) (Fin 0)
          \<longrightarrow> block_after ''Suggestions based on data analysis'' doc1 ! 1
              = bullet [Lit fc1_no_reset])
        \<and> (py_ne (nanstd (as_float sp)) (Fin 0)
          \<longrightarrow> block_after ''Suggestions based on data analysis'' doc1 ! 1
              = bullet [Lit fc1_reset]))
   \<and> (fc2_create_report cfg2 now2 df2 oc2 = Inr (dfc, doc2)
      \<and> fc2_create_plot cfg2 df2 oc2 = Inr (dfd, fig2)
      \<and> fc2_summarize_fault_times cfg2 dfd oc2 = Inr r2
    \<longrightarrow> (py_lt (percent_true_of r2) (Fin 5)
          \<longrightarrow> block_after ''Suggestions based on data analysis'' doc2 ! 0
              = bullet [Lit fc2_out_of_calibration])
        \<and> (py_ge (percent_true_of r2) (Fin 5)
          \<longrightarrow> block_after ''Suggestions based on data analysis'' doc2 ! 0
              = bullet [Lit fc2_within_calibration]))"
proof (intro conjI impI)
  assume a: "fc1_create_report cfg1 now1 df1 oc1 = Inr (dfa, doc1)
      \<and> fc1_create_fan_plot cfg1 df1 oc1 = Inr (dfb, fig1)
      \<and> fc1_summarize_fault_times cfg1 dfb oc1 = Inr r1
      \<and> df_get dfa (duct_static_setpoint_col cfg1) = Inr sp"
  then have b: "block_after ''Suggestions based on data analysis'' doc1
    = [bullet [Lit (if py_gt (percent_true_of r1) (Fin 5)
                    then fc1_percent_high else fc1_percent_low)],
       bullet [Lit (if py_eq (nanstd (as_float sp)) (Fin 0) then fc1_no_reset else fc1_reset)],
       footer now1]"
    by (intro fc1_report_suggestions) blast+
  {
    assume "py_gt (percent_true_of r1) (Fin 5)"
    with b show "block_after ''Suggestions based on data analysis'' doc1 ! 0
              = bullet [Lit fc1_percent_high]"
      by simp
  next
    assume "py_le (percent_true_of r1) (Fin 5)"
    with b show "block_after ''Suggestions based on data analysis'' doc1 ! 0
              = bullet [Lit fc1_percent_low]"
      by (simp add: py_le_not_gt)
  next
    assume "py_eq (nanstd (as_float sp)) (Fin 0)"
    with b show "block_after ''Suggestions based on data analysis'' doc1 ! 1
              = bullet [Lit fc1_no_reset]"
      by simp
  next
    assume "py_ne (nanstd (as_float sp)) (Fin 0)"
    with b show "block_after ''Suggestions based on data analysis'' doc1 ! 1
              = bullet [Lit fc1_reset]"
      by (simp add: py_ne_def)
  }
next
  assume a: "fc2_create_report cfg2 now2 df2 oc2 = Inr (dfc, doc2)
      \<and> fc2_create_plot cfg2 df2 oc2 = Inr (dfd, fig2)
      \<and> fc2_summarize_fault_times cfg2 dfd oc2 = Inr r2"
  then have b: "block_after ''Suggestions based on data analysis'' doc2
    = [bullet [Lit (if py_lt (percent_true_of r2) (Fin 5)
                    then fc2_out_of_calibration else fc2_within_calibration)],
       footer now2]"
    by (intro fc2_report_suggestions) blast+
  {
    assume "py_lt (percent_true_of r2) (Fin 5)"
    with b show "block_after ''Suggestions based on data analysis'' doc2 ! 0
              = bullet [Lit fc2_out_of_calibration]"
      by simp
  next
    assume "py_ge (percent_true_of r2) (Fin 5)"
    with b show "block_after ''Suggestions based on data analysis'' doc2 ! 0
              = bullet [Lit fc2_within_calibration]"
      by (simp add: py_ge_not_lt)
  }
qed


lemma ex_fc2_two_columns:
  "df_get (df_set ex_fc2_two ''hour_of_the_day_fc2'' (FloatCol [Fin 0, NaN]))
        (mat_col ex_cfg2) = Inr (FloatCol [Fin 50, Fin 60])"
  by (simp add: df_get_def df_set_def ex_fc2_two_def ex_cfg2_def)

theorem suggestion_thresholds_witness:
  "py_gt (percent_true_of (Fin (1 / 25), Fin 1, Fin 0, Fin 50, Fin 50, Fin (3 / 2))) (Fin 5)
   \<and> py_eq (nanstd (as_float (FloatCol [Fin 1, Fin 1]))) (Fin 0)
   \<and> block_after ''Suggestions based on data analysis''
        (snd (projr (fc1_create_report ex_cfg1 ex_now ex_fc1_two None)))
      = [bullet [Lit fc1_percent_high], bullet [Lit fc1_no_reset], footer ex_now]
   \<and> py_le (percent_true_of (Fin 0, Fin 0, Fin 0, Fin 0, Fin 100, NaN)) (Fin 5)
   \<and> py_ne (nanstd (as_float (FloatCol [Fin 1]))) (Fin 0)
   \<and> block_after ''Suggestions based on data analysis''
        (snd (projr (fc1_create_report ex_cfg1 ex_now ex_fc1_single None)))
      = [bullet [Lit fc1_percent_low], bullet [Lit fc1_reset], footer ex_now]
   \<and> py_ge (percent_true_of (Fin (1 / 25), Fin 1, Fin 0, Fin 50, Fin 50, Fin 50, Fin 40, Fin 70))
        (Fin 5)
   \<and> block_after ''Suggestions based on data analysis''
        (snd (projr (fc2_create_report ex_cfg2 ex_now ex_fc2_two None)))
      = [bullet [Lit fc2_within_calibration], footer ex_now]
   \<and> py_lt (percent_true_of (Fin 0, Fin 0, Fin 0, Fin 0, Fin 100, NaN, NaN, NaN)) (Fin 5)
   \<and> block_after ''Suggestions based on data analysis''
        (snd (projr (fc2_create_report ex_cfg2 ex_now ex_fc2_single None)))
      = [bullet [Lit fc2_out_of_calibration], footer ex_now]"
proof -
  let ?S = "block_after ''Suggestions based on data analysis''"
  let ?A = "fc1_create_report ex_cfg1 ex_now ex_fc1_two None"
  let ?B = "fc1_create_report ex_cfg1 ex_now ex_fc1_single None"
  let ?C = "fc2_create_report ex_cfg2 ex_now ex_fc2_two None"
  let ?D = "fc2_create_report ex_cfg2 ex_now ex_fc2_single None"
  have A: "?A = Inr (fst (projr ?A), snd (projr ?A))"
    "df_get (fst (projr ?A)) (duct_static_setpoint_col ex_cfg1) = Inr (FloatCol [Fin 1, Fin 1])"
    by (simp_all add: ex_fc1_two_report ex_fc1_two_columns)
  have B: "?B = Inr (fst (projr ?B), snd (projr ?B))"
    "df_get (fst (projr ?B)) (duct_static_setpoint_col ex_cfg1) = Inr (FloatCol [Fin 1])"
    by (simp_all add: ex_fc1_single_report ex_fc1_single_columns)
  have C: "?C = Inr (fst (projr ?C), snd (projr ?C))"
    by (simp add: ex_fc2_two_report)
  have D: "?D = Inr (fst (projr ?D), snd (projr ?D))"
    by (simp add: ex_fc2_single_report)
  have v: "py_gt (percent_true_of (Fin (1 / 25), Fin 1, Fin 0, Fin 50, Fin 50, Fin (3 / 2))) (Fin 5)"
    "py_eq (nanstd (as_float (FloatCol [Fin 1, Fin 1]))) (Fin 0)"
    "py_le (percent_true_of (Fin 0, Fin 0, Fin 0, Fin 0, Fin 100, NaN)) (Fin 5)"
    "py_ne (nanstd (as_float (FloatCol [Fin 1]))) (Fin 0)"
    "py_ge (percent_true_of (Fin (1 / 25), Fin 1, Fin 0, Fin 50, Fin 50, Fin 50, Fin 40, Fin 70))
        (Fin 5)"
    "py_lt (percent_true_of (Fin 0, Fin 0, Fin 0, Fin 0, Fin 100, NaN, NaN, NaN)) (Fin 5)"
    by (simp_all add: percent_true_of_def nanstd_def py_ne_def)
  have len: "length (?S (snd (projr ?A))) = 3" "length (?S (snd (projr ?B))) = 3"
    "length (?S (snd (projr ?C))) = 2" "length (?S (snd (projr ?D))) = 2"
    "?S (snd (projr ?A)) ! 2 = footer ex_now" "?S (snd (projr ?B)) ! 2 = footer ex_now"
    "?S (snd (projr ?C)) ! 1 = footer ex_now" "?S (snd (projr ?D)) ! 1 = footer ex_now"
    by (simp_all add: ex_fc1_two_report ex_fc1_single_report ex_fc2_two_report
        ex_fc2_single_report fc1_suggestions_block fc2_suggestions_block not_heading_commentary)
  note t1 = suggestion_thresholds [where ?cfg1.0 = ex_cfg1 and ?now1.0 = ex_now
      and ?df1.0 = ex_fc1_two and ?oc1.0 = None and dfa = "fst (projr ?A)"
      and ?doc1.0 = "snd (projr ?A)" and dfb = ex_fc1_two and sp = "FloatCol [Fin 1, Fin 1]"
      and ?r1.0 = "(Fin (1 / 25), Fin 1, Fin 0, Fin 50, Fin 50, Fin (3 / 2))"
      and ?cfg2.0 = ex_cfg2 and ?now2.0 = ex_now and ?df2.0 = ex_fc2_two and ?oc2.0 = None
      and dfc = "fst (projr ?C)" and ?doc2.0 = "snd (projr ?C)" and dfd = ex_fc2_two
      and ?r2.0 = "(Fin (1 / 25), Fin 1, Fin 0, Fin 50, Fin 50, Fin 50, Fin 40, Fin 70)"]
  note t2 = suggestion_thresholds [where ?cfg1.0 = ex_cfg1 and ?now1.0 = ex_now
      and ?df1.0 = ex_fc1_single and ?oc1.0 = None and dfa = "fst (projr ?B)"
      and ?doc1.0 = "snd (projr ?B)" and dfb = ex_fc1_single and sp = "FloatCol [Fin 1]"
      and ?r1.0 = "(Fin 0, Fin 0, Fin 0, Fin 0, Fin 100, NaN)"
      and ?cfg2.0 = ex_cfg2 and ?now2.0 = ex_now and ?df2.0 = ex_fc2_single and ?oc2.0 = None
      and dfc = "fst (projr ?D)" and ?doc2.0 = "snd (projr ?D)" and dfd = ex_fc2_single
      and ?r2.0 = "(Fin 0, Fin 0, Fin 0, Fin 0, Fin 100, NaN, NaN, NaN)"]
  have a: "?S (snd (projr ?A)) ! 0 = bullet [Lit fc1_percent_high]"
    "?S (snd (projr ?A)) ! 1 = bullet [Lit fc1_no_reset]"
    "?S (snd (projr ?C)) ! 0 = bullet [Lit fc2_within_calibration]"
    using t1 A C v ex_fc1_two_fan_plot ex_fc1_two_summary ex_fc2_two_plot ex_fc2_two_summary
    by blast+
  have b: "?S (snd (projr ?B)) ! 0 = bullet [Lit fc1_percent_low]"
    "?S (snd (projr ?B)) ! 1 = bullet [Lit fc1_reset]"
    "?S (snd (projr ?D)) ! 0 = bullet [Lit fc2_out_of_calibration]"
    using t2 B D v ex_fc1_single_fan_plot ex_fc1_single_summary ex_fc2_single_plot
      ex_fc2_single_summary
    by blast+
  have three: "xs = [xs ! 0, xs ! 1, xs ! 2]" if "length xs = 3" for xs :: "element list"
    using that by (cases xs; cases "tl xs"; cases "tl (tl xs)") auto
  have two: "xs = [xs ! 0, xs ! 1]" if "length xs = 2" for xs :: "element list"
    using that by (cases xs; cases "tl xs") auto
  have "?S (snd (projr ?A)) = [bullet [Lit fc1_percent_high], bullet [Lit fc1_no_reset], footer ex_now]"
    using three [OF len(1)] a len(5) by simp
  moreover have "?S (snd (projr ?B)) = [bullet [Lit fc1_percent_low], bullet [Lit fc1_reset], footer ex_now]"
    using three [OF len(2)] b len(6) by simp
  moreover have "?S (snd (projr ?C)) = [bullet [Lit fc2_within_calibration], footer ex_now]"
    using two [OF len(3)] a len(7) by simp
  moreover have "?S (snd (projr ?D)) = [bullet [Lit fc2_out_of_calibration], footer ex_now]"
    using two [OF len(4)] b len(8) by simp
  ultimately show ?thesis
    using v by blast
qed

subsection \<open>An undefined standard deviation\<close>

lemma length_dropna: "length (dropna vs) \<le> length vs"
  by (induction vs rule: dropna.induct) simp_all

lemma length_as_float: "length (as_float c) = col_len c"
  by (cases c) simp_all

lemma nanstd_isnan: "isnan (nanstd vs) \<longleftrightarrow> length (dropna vs) \<le> 1"
  by (simp add: nanstd_def Let_def)

lemma nanstd_short: "col_len c \<le> 1 \<Longrightarrow> isnan (nanstd (as_float c))"
  using length_dropna [of "as_float c"] by (simp add: nanstd_isnan length_as_float)

lemma ex_fc1_nan_setpoint_columns:
  "df_get (df_set ex_fc1_nan_setpoint ''hour_of_the_day_fc1'' (FloatCol [Fin 0, NaN]))
      (supply_vfd_speed_col ex_cfg1) = Inr (FloatCol [Fin 90, Fin 80])"
  "df_get (df_set ex_fc1_nan_setpoint ''hour_of_the_day_fc1'' (FloatCol [Fin 0, NaN]))
      (duct_static_col ex_cfg1) = Inr (FloatCol [Fin (3 / 2), Fin (1 / 2)])"
  "df_get (df_set ex_fc1_nan_setpoint ''hour_of_the_day_fc1'' (FloatCol [Fin 0, NaN]))
      (duct_static_setpoint_col ex_cfg1) = Inr (FloatCol [NaN, Fin 1])"
  by (simp_all add: df_get_def df_set_def ex_fc1_nan_setpoint_def ex_cfg1_def)

lemma ex_fc1_nan_setpoint_report:
  "fc1_create_report ex_cfg1 ex_now ex_fc1_nan_setpoint None
     = Inr (df_set ex_fc1_nan_setpoint ''hour_of_the_day_fc1'' (FloatCol [Fin 0, NaN]),
            fc1_title_section
            @ time_series_section
                (FanPlot [0, 3600000000000] (FloatCol [Fin (3 / 2), Fin (1 / 2)])
                   (FloatCol [Fin 90, Fin 80]) (IntCol [1, 0]))
            @ statistics_section (Fin (1 / 25)) (Fin 1) (Fin 0) (Fin 50) (Fin 50)
            @ histogram_section (HistPlot [0, 0, 0, 0, 0, 1, 0, 0, 0, 0])
            @ commentary_section (Fin (3 / 2)) (fc1_commentary (Fin (3 / 2)))
            @ fc1_sensor_statistics (FloatCol [Fin 90, Fin 80])
                (FloatCol [Fin (3 / 2), Fin (1 / 2)]) (FloatCol [NaN, Fin 1])
            @ suggestions_section [fc1_percent_high, fc1_reset]
            @ [footer ex_now])"
proof -
  have fan: "fc1_create_fan_plot ex_cfg1 ex_fc1_nan_setpoint None
     = Inr (ex_fc1_nan_setpoint,
            FanPlot [0, 3600000000000] (FloatCol [Fin (3 / 2), Fin (1 / 2)])
              (FloatCol [Fin 90, Fin 80]) (IntCol [1, 0]))"
    by (simp add: fc1_create_fan_plot_def fc1_output_col_def ex_cfg1_def ex_fc1_nan_setpoint_def
        df_get_def df_set_def Let_def)
  have summ: "fc1_summarize_fault_times ex_cfg1 ex_fc1_nan_setpoint None
     = Inr (Fin (1 / 25), Fin 1, Fin 0, Fin 50, Fin 50, Fin (3 / 2))"
    by (simp add: fc1_summarize_fault_times_def fc1_output_col_def ex_cfg1_def
        ex_fc1_nan_setpoint_def df_get_def td_div_def ns_per_day_def ns_per_hour_def
        nanmean_def where_cond_def round_half_even_def Let_def)
  have hist: "fc1_create_hist_plot ex_fc1_nan_setpoint None
     = Inr (df_set ex_fc1_nan_setpoint ''hour_of_the_day_fc1'' (FloatCol [Fin 0, NaN]),
            HistPlot [0, 0, 0, 0, 0, 1, 0, 0, 0, 0])"
    by (simp add: fc1_create_hist_plot_def fc1_output_col_def ex_fc1_nan_setpoint_def
        df_get_def where_cond_def hour_of_def ns_per_hour_def histogram_def hist_range_def
        bin_index_def mpl_hist_bins_def upt_rec Let_def)
  have std: "nanstd [NaN, Fin 1] = NaN"
    by (simp add: nanstd_def)
  show ?thesis
    using fc1_create_report_document [OF fan summ hist ex_fc1_nan_setpoint_columns, of ex_now]
    by (simp add: std)
qed

text \<open>
  C10. In the first report, whenever the standard deviation of the setpoint column is
  undefined (NaN), the comparison with 0 is false and the second suggestion is "Duct
  pressure reset detected (Good)". The standard deviation is NaN exactly when the column
  has at most one value that is not NaN, so in particular for a dataset of at most one
  row.
\<close>

theorem undefined_std_reports_reset:
  assumes "fc1_create_report cfg now df oc = Inr (df2, doc)"
    and "df_get df2 (duct_static_setpoint_col cfg) = Inr sp"
  shows "(isnan (nanstd (as_float sp)) \<longleftrightarrow> length (dropna (as_float sp)) \<le> 1)
    \<and> (col_len sp \<le> 1 \<longrightarrow> isnan (nanstd (as_float sp)))
    \<and> (isnan (nanstd (as_float sp))
        \<longrightarrow> \<not> py_eq (nanstd (as_float sp)) (Fin 0)
          \<and> block_after ''Suggestions based on data analysis'' doc ! 1
              = bullet [Lit fc1_reset])"
proof (intro conjI impI)
  show "isnan (nanstd (as_float sp)) \<longleftrightarrow> length (dropna (as_float sp)) \<le> 1"
    by (rule nanstd_isnan)
  show "isnan (nanstd (as_float sp))" if "col_len sp \<le> 1"
    using that by (rule nanstd_short)
  from fc1_create_report_stages [OF assms(1)]
  obtain df1 fig r where
    s: "fc1_create_fan_plot cfg df oc = Inr (df1, fig)"
      "fc1_summarize_fault_times cfg df1 oc = Inr r"
    by blast
  assume n: "isnan (nanstd (as_float sp))"
  then have e: "\<not> py_eq (nanstd (as_float sp)) (Fin 0)"
    by (cases "nanstd (as_float sp)") simp_all
  then show "\<not> py_eq (nanstd (as_float sp)) (Fin 0)" .
  from fc1_report_suggestions [OF assms(1) s assms(2)] e
  show "block_after ''Suggestions based on data analysis'' doc ! 1 = bullet [Lit fc1_reset]"
    by simp
qed

theorem undefined_std_reports_reset_witness:
  "df_get (fst (projr (fc1_create_report ex_cfg1 ex_now ex_fc1_single None)))
        (duct_static_setpoint_col ex_cfg1) = Inr (FloatCol [Fin 1])
   \<and> col_len (FloatCol [Fin 1]) \<le> 1
   \<and> isnan (nanstd (as_float (FloatCol [Fin 1])))
   \<and> block_after ''Suggestions based on data analysis''
        (snd (projr (fc1_create_report ex_cfg1 ex_now ex_fc1_single None))) ! 1
      = bullet [Lit fc1_reset]
   \<and> df_get (fst (projr (fc1_create_report ex_cfg1 ex_now ex_fc1_nan_setpoint None)))
        (duct_static_setpoint_col ex_cfg1) = Inr (FloatCol [NaN, Fin 1])
   \<and> length (dropna (as_float (FloatCol [NaN, Fin 1]))) \<le> 1
   \<and> isnan (nanstd (as_float (FloatCol [NaN, Fin 1])))
   \<and> block_after ''Suggestions based on data analysis''
        (snd (projr (fc1_create_report ex_cfg1 ex_now ex_fc1_nan_setpoint None))) ! 1
      = bullet [Lit fc1_reset]"
proof -
  let ?B = "fc1_create_report ex_cfg1 ex_now ex_fc1_single None"
  let ?N = "fc1_create_report ex_cfg1 ex_now ex_fc1_nan_setpoint None"
  have B: "?B = Inr (fst (projr ?B), snd (projr ?B))"
    "df_get (fst (projr ?B)) (duct_static_setpoint_col ex_cfg1) = Inr (FloatCol [Fin 1])"
    by (simp_all add: ex_fc1_single_report ex_fc1_single_columns)
  have N: "?N = Inr (fst (projr ?N), snd (projr ?N))"
    "df_get (fst (projr ?N)) (duct_static_setpoint_col ex_cfg1) = Inr (FloatCol [NaN, Fin 1])"
    by (simp_all add: ex_fc1_nan_setpoint_report ex_fc1_nan_setpoint_columns)
  have c: "col_len (FloatCol [Fin 1]) \<le> 1" "length (dropna (as_float (FloatCol [NaN, Fin 1]))) \<le> 1"
    by simp_all
  from undefined_std_reports_reset [OF B] undefined_std_reports_reset [OF N] B N c
  show ?thesis
    by blast
qed

subsection \<open>The DataFrame through the call\<close>

lemma df_get_df_set:
  "df_get (df_set df name c) k = (if k = name then Inr c else df_get df k)"
  by (simp add: df_get_def df_set_def update_conv')


lemma index_df_set: "index (df_set df name c) = index df"
  by (simp add: df_set_def)

lemma map_of_df_set:
  "map_of (columns (df_set df name c)) k = (if k = name then Some c else map_of (columns df) k)"
  by (simp add: df_set_def update_conv')

lemma df_get_present: "(\<exists>c. df_get df k = Inr c) \<longleftrightarrow> map_of (columns df) k \<noteq> None"
  by (auto simp: df_get_def split: option.splits)

lemma fc1_create_fan_plot_Inr:
  assumes "fc1_create_fan_plot cfg df oc = Inr (df1, fig)"
  shows "\<exists>flag flag_int static vfd.
      df_get df (fc1_output_col oc) = Inr flag \<and> astype_int flag = Inr flag_int
    \<and> df1 = df_set df (fc1_output_col oc) flag_int
    \<and> df_get df1 (duct_static_col cfg) = Inr static
    \<and> df_get df1 (supply_vfd_speed_col cfg) = Inr vfd"
  using assms
  by (auto simp: fc1_create_fan_plot_def Let_def split: sum.splits)

lemma fc2_create_plot_Inr:
  assumes "fc2_create_plot cfg df oc = Inr (df1, fig)"
  shows "\<exists>flag flag_int mat rat oat.
      df_get df (fc2_output_col oc) = Inr flag \<and> astype_int flag = Inr flag_int
    \<and> df1 = df_set df (fc2_output_col oc) flag_int
    \<and> df_get df1 (mat_col cfg) = Inr mat
    \<and> df_get df1 (rat_col cfg) = Inr rat
    \<and> df_get df1 (oat_col cfg) = Inr oat"
  using assms
  by (auto simp: fc2_create_plot_def Let_def split: sum.splits)

subsection \<open>The conditional commentary\<close>












subsection \<open>The order of the sections\<close>

text \<open>
  C7 (as amended). Whenever \<^verbatim>\<open>create_report\<close> returns (in both report classes), the
  document holds its sections in the fixed order: title, description and reference image;
  time-series plot; statistics; hour-of-day histogram; the optional commentary;
  descriptive statistics per sensor; suggestions; footer. The statistics block holds the
  values of \<^verbatim>\<open>summarize_fault_times\<close> in five bullets (total days, total hours, flagged
  hours, percent flagged, percent not flagged), always present, followed by one empty
  paragraph.
\<close>

theorem report_sections_in_order:
  "(fc1_create_report cfg1 now1 df1 oc1 = Inr (dfa, doc1)
    \<longrightarrow> (\<exists>dfb fig td th hm pt pf m h vfd static sp s1 s2.
            fc1_create_fan_plot cfg1 df1 oc1 = Inr (dfb, fig)
          \<and> fc1_summarize_fault_times cfg1 dfb oc1 = Inr (td, th, hm, pt, pf, m)
          \<and> fc1_create_hist_plot dfb oc1 = Inr (dfa, h)
          \<and> doc1 = fc1_title_section @ time_series_section fig
                @ statistics_section td th hm pt pf @ histogram_section h
                @ commentary_section m (fc1_commentary m)
                @ fc1_sensor_statistics vfd static sp
                @ suggestions_section [s1, s2] @ [footer now1]
          \<and> block_after ''Dataset Statistics'' doc1
              = statistics_bullets td th hm pt pf @ [empty_paragraph])
        \<and> length (filter is_list_bullet (block_after ''Dataset Statistics'' doc1)) = 5)
   \<and> (fc2_create_report cfg2 now2 df2 oc2 = Inr (dfc, doc2)
    \<longrightarrow> (\<exists>dfd fig td th hm pt pf m mo mr h mat rat oat s1.
            fc2_create_plot cfg2 df2 oc2 = Inr (dfd, fig)
          \<and> fc2_summarize_fault_times cfg2 dfd oc2 = Inr (td, th, hm, pt, pf, m, mo, mr)
          \<and> fc2_create_hist_plot dfd oc2 = Inr (dfc, h)
          \<and> doc2 = fc2_title_section @ time_series_section fig
                @ statistics_section td th hm pt pf @ histogram_section h
                @ commentary_section m (fc2_commentary m mo mr)
                @ fc2_sensor_statistics mat rat oat
                @ suggestions_section [s1] @ [footer now2]
          \<and> block_after ''Dataset Statistics'' doc2
              = statistics_bullets td th hm pt pf @ [empty_paragraph])
        \<and> length (filter is_list_bullet (block_after ''Dataset Statistics'' doc2)) = 5)"
proof (intro conjI impI)
  assume r: "fc1_create_report cfg1 now1 df1 oc1 = Inr (dfa, doc1)"
  from fc1_create_report_stages [OF r]
  obtain dfb fig td th hm pt pf m h vfd static sp where
    s: "fc1_create_fan_plot cfg1 df1 oc1 = Inr (dfb, fig)"
      "fc1_summarize_fault_times cfg1 dfb oc1 = Inr (td, th, hm, pt, pf, m)"
      "fc1_create_hist_plot dfb oc1 = Inr (dfa, h)"
      "df_get dfa (supply_vfd_speed_col cfg1) = Inr vfd"
      "df_get dfa (duct_static_col cfg1) = Inr static"
      "df_get dfa (duct_static_setpoint_col cfg1) = Inr sp"
    by blast
  let ?s1 = "if py_gt pt (Fin 5) then fc1_percent_high else fc1_percent_low"
  let ?s2 = "if py_eq (nanstd (as_float sp)) (Fin 0) then fc1_no_reset else fc1_reset"
  let ?doc = "fc1_title_section @ time_series_section fig
                @ statistics_section td th hm pt pf @ histogram_section h
                @ commentary_section m (fc1_commentary m)
                @ fc1_sensor_statistics vfd static sp
                @ suggestions_section [?s1, ?s2] @ [footer now1]"
  have d: "doc1 = ?doc"
    using fc1_create_report_document [OF s, of now1] r by simp
  have b: "block_after ''Dataset Statistics'' doc1
      = statistics_bullets td th hm pt pf @ [empty_paragraph]"
    unfolding d by (rule statistics_block) simp
  from s(1-3) d b
  show "\<exists>dfb fig td th hm pt pf m h vfd static sp s1 s2.
            fc1_create_fan_plot cfg1 df1 oc1 = Inr (dfb, fig)
          \<and> fc1_summarize_fault_times cfg1 dfb oc1 = Inr (td, th, hm, pt, pf, m)
          \<and> fc1_create_hist_plot dfb oc1 = Inr (dfa, h)
          \<and> doc1 = fc1_title_section @ time_series_section fig
                @ statistics_section td th hm pt pf @ histogram_section h
                @ commentary_section m (fc1_commentary m)
                @ fc1_sensor_statistics vfd static sp
                @ suggestions_section [s1, s2] @ [footer now1]
          \<and> block_after ''Dataset Statistics'' doc1
              = statistics_bullets td th hm pt pf @ [empty_paragraph]"
    by blast
  from b show "length (filter is_list_bullet (block_after ''Dataset Statistics'' doc1)) = 5"
    by (simp only: statistics_bullets_count)
next
  assume r: "fc2_create_report cfg2 now2 df2 oc2 = Inr (dfc, doc2)"
  from fc2_create_report_stages [OF r]
  obtain dfd fig td th hm pt pf m mo mr h mat rat oat where
    s: "fc2_create_plot cfg2 df2 oc2 = Inr (dfd, fig)"
      "fc2_summarize_fault_times cfg2 dfd oc2 = Inr (td, th, hm, pt, pf, m, mo, mr)"
      "fc2_create_hist_plot dfd oc2 = Inr (dfc, h)"
      "df_get dfc (mat_col cfg2) = Inr mat"
      "df_get dfc (rat_col cfg2) = Inr rat"
      "df_get dfc (oat_col cfg2) = Inr oat"
    by blast
  let ?s1 = "if py_lt pt (Fin 5) then fc2_out_of_calibration else fc2_within_calibration"
  let ?doc = "fc2_title_section @ time_series_section fig
                @ statistics_section td th hm pt pf @ histogram_section h
                @ commentary_section m (fc2_commentary m mo mr)
                @ fc2_sensor_statistics mat rat oat
                @ suggestions_section [?s1] @ [footer now2]"
  have d: "doc2 = ?doc"
    using fc2_create_report_document [OF s, of now2] r by simp
  have b: "block_after ''Dataset Statistics'' doc2
      = statistics_bullets td th hm pt pf @ [empty_paragraph]"
    unfolding d by (rule statistics_block) simp
  from s(1-3) d b
  show "\<exists>dfd fig td th hm pt pf m mo mr h mat rat oat s1.
            fc2_create_plot cfg2 df2 oc2 = Inr (dfd, fig)
          \<and> fc2_summarize_fault_times cfg2 dfd oc2 = Inr (td, th, hm, pt, pf, m, mo, mr)
          \<and> fc2_create_hist_plot dfd oc2 = Inr (dfc, h)
          \<and> doc2 = fc2_title_section @ time_series_section fig
                @ statistics_section td th hm pt pf @ histogram_section h
                @ commentary_section m (fc2_commentary m mo mr)
                @ fc2_sensor_statistics mat rat oat
                @ suggestions_section [s1] @ [footer now2]
          \<and> block_after ''Dataset Statistics'' doc2
              = statistics_bullets td th hm pt pf @ [empty_paragraph]"
    by blast
  from b show "length (filter is_list_bullet (block_after ''Dataset Statistics'' doc2)) = 5"
    by (simp only: statistics_bullets_count)
qed

theorem report_sections_in_order_witness:
  "fc1_create_report ex_cfg1 ex_now ex_fc1_two None
     = Inr (fst (projr (fc1_create_report ex_cfg1 ex_now ex_fc1_two None)),
            snd (projr (fc1_create_report ex_cfg1 ex_now ex_fc1_two None)))
   \<and> length (filter is_list_bullet (block_after ''Dataset Statistics''
        (snd (projr (fc1_create_report ex_cfg1 ex_now ex_fc1_two None))))) = 5
   \<and> fc2_create_report ex_cfg2 ex_now ex_fc2_two None
     = Inr (fst (projr (fc2_create_report ex_cfg2 ex_now ex_fc2_two None)),
            snd (projr (fc2_create_report ex_cfg2 ex_now ex_fc2_two None)))
   \<and> length (filter is_list_bullet (block_after ''Dataset Statistics''
        (snd (projr (fc2_create_report ex_cfg2 ex_now ex_fc2_two None))))) = 5"
proof -
  let ?A = "fc1_create_report ex_cfg1 ex_now ex_fc1_two None"
  let ?C = "fc2_create_report ex_cfg2 ex_now ex_fc2_two None"
  have A: "?A = Inr (fst (projr ?A), snd (projr ?A))"
    by (simp add: ex_fc1_two_report)
  have C: "?C = Inr (fst (projr ?C), snd (projr ?C))"
    by (simp add: ex_fc2_two_report)
  from report_sections_in_order [THEN conjunct1, THEN mp, OF A]
    report_sections_in_order [THEN conjunct2, THEN mp, OF C] A C
  show ?thesis
    by blast
qed

text \<open>
  The claim as stated counts six bullets in the statistics block. The report of the
  two-sample dataset has five, followed by a paragraph with neither style nor text.
\<close>

theorem six_statistics_bullets_counterexample:
  "fc1_create_report ex_cfg1 ex_now ex_fc1_two None
     = Inr (fst (projr (fc1_create_report ex_cfg1 ex_now ex_fc1_two None)),
            snd (projr (fc1_create_report ex_cfg1 ex_now ex_fc1_two None)))
   \<and> block_after ''Dataset Statistics''
        (snd (projr (fc1_create_report ex_cfg1 ex_now ex_fc1_two None)))
     = [bullet [Lit ''Total time in days calculated in dataset: '', Val (Fin (1 / 25))],
        bullet [Lit ''Total time in hours calculated in dataset: '', Val (Fin 1)],
        bullet [Lit ''Total time in hours for when fault flag is True: '', Val (Fin 0)],
        bullet [Lit ''Percent of time in the dataset when the fault flag is True: '',
                Val (Fin 50), Lit ''%''],
        bullet [Lit ''Percent of time in the dataset when the fault flag is False: '',
                Val (Fin 50), Lit ''%''],
        Paragraph None []]
   \<and> length (filter is_list_bullet (block_after ''Dataset Statistics''
        (snd (projr (fc1_create_report ex_cfg1 ex_now ex_fc1_two None))))) \<noteq> 6"
proof -
  let ?A = "fc1_create_report ex_cfg1 ex_now ex_fc1_two None"
  have A: "?A = Inr (fst (projr ?A), snd (projr ?A))"
    by (simp add: ex_fc1_two_report)
  have b: "block_after ''Dataset Statistics'' (snd (projr ?A))
      = statistics_bullets (Fin (1 / 25)) (Fin 1) (Fin 0) (Fin 50) (Fin 50) @ [empty_paragraph]"
    by (simp add: ex_fc1_two_report statistics_block)
  show ?thesis
    using A by (simp only: b statistics_bullets_count)
      (simp add: statistics_bullets_def empty_paragraph_def)
qed

subsection \<open>Missing columns\<close>

lemma fc1_create_hist_plot_Inr:
  assumes "fc1_create_hist_plot df oc = Inr (df2, h)"
  shows "\<exists>c. df2 = df_set df ''hour_of_the_day_fc1'' c"
  using assms by (auto simp: fc1_create_hist_plot_def Let_def split: sum.splits)

lemma fc2_create_hist_plot_Inr:
  assumes "fc2_create_hist_plot df oc = Inr (df2, h)"
  shows "\<exists>c. df2 = df_set df ''hour_of_the_day_fc2'' c"
  using assms by (auto simp: fc2_create_hist_plot_def Let_def split: sum.splits)

lemma df_get_df_set_absent:
  "map_of (columns df) k = None \<Longrightarrow> k \<noteq> name \<Longrightarrow> df_get (df_set df name c) k = Inl (KeyError k)"
  by (simp add: df_get_df_set) (simp add: df_get_def)

lemma fc1_create_report_Inr_columns:
  assumes "fc1_create_report cfg now df oc = Inr (df2, doc)"
    and "c = fc1_output_col oc \<or> c = duct_static_col cfg \<or> c = supply_vfd_speed_col cfg
      \<or> (c = duct_static_setpoint_col cfg \<and> c \<noteq> ''hour_of_the_day_fc1'')"
  shows "map_of (columns df) c \<noteq> None"
proof
  assume absent: "map_of (columns df) c = None"
  from fc1_create_report_stages [OF assms(1)]
  obtain df1 fig h sp where
    s: "fc1_create_fan_plot cfg df oc = Inr (df1, fig)"
      "fc1_create_hist_plot df1 oc = Inr (df2, h)"
      "df_get df2 (duct_static_setpoint_col cfg) = Inr sp"
    by blast
  from fc1_create_fan_plot_Inr [OF s(1)] obtain flag flag_int static vfd where
    f: "df_get df (fc1_output_col oc) = Inr flag"
      "df1 = df_set df (fc1_output_col oc) flag_int"
      "df_get df1 (duct_static_col cfg) = Inr static"
      "df_get df1 (supply_vfd_speed_col cfg) = Inr vfd"
    by blast
  from fc1_create_hist_plot_Inr [OF s(2)] obtain hc where
    h: "df2 = df_set df1 ''hour_of_the_day_fc1'' hc"
    by blast
  from f(1) absent have ne: "c \<noteq> fc1_output_col oc"
    by (auto simp: df_get_def)
  then have a1: "df_get df1 c = Inl (KeyError c)"
    using absent f(2) by (simp add: df_get_df_set_absent)
  with f(3,4) have "c \<noteq> duct_static_col cfg" "c \<noteq> supply_vfd_speed_col cfg"
    by auto
  with ne assms(2) have c: "c = duct_static_setpoint_col cfg" "c \<noteq> ''hour_of_the_day_fc1''"
    by blast+
  then have "df_get df2 c = Inl (KeyError c)"
    using a1 h by (simp add: df_get_df_set)
  with s(3) c(1) show False
    by simp
qed

lemma df_get_Inl:
  "df_get df k = Inl e \<Longrightarrow> e = KeyError k \<and> map_of (columns df) k = None"
  by (auto simp: df_get_def split: option.splits)

lemma absent_df_set:
  "map_of (columns (df_set df name c)) k = None \<Longrightarrow> map_of (columns df) k = None"
  by (simp add: map_of_df_set split: if_splits)

lemma astype_int_Inl: "astype_int c = Inl e \<Longrightarrow> e = ValueError"
  by (cases c) (auto split: if_splits)

lemma fc1_create_fan_plot_error:
  assumes "fc1_create_fan_plot cfg df oc = Inl (e, df')"
  shows "e = ValueError \<or> (\<exists>k. e = KeyError k \<and> map_of (columns df) k = None)"
  using assms
  by (auto simp: fc1_create_fan_plot_def Let_def split: sum.splits
      dest!: df_get_Inl astype_int_Inl dest: absent_df_set)

lemma fc1_summarize_fault_times_error:
  assumes "fc1_summarize_fault_times cfg df oc = Inl e"
  shows "\<exists>k. e = KeyError k \<and> map_of (columns df) k = None"
  using assms
  by (auto simp: fc1_summarize_fault_times_def Let_def split: sum.splits dest!: df_get_Inl)

lemma fc1_create_hist_plot_error:
  assumes "fc1_create_hist_plot df oc = Inl e"
  shows "\<exists>k. e = KeyError k \<and> map_of (columns df) k = None"
  using assms
  by (auto simp: fc1_create_hist_plot_def Let_def split: sum.splits dest!: df_get_Inl)

lemma fc1_create_report_error:
  assumes "fc1_create_report cfg now df oc = Inl (e, df', doc')"
  shows "e = ValueError \<or> (\<exists>k. e = KeyError k \<and> map_of (columns df) k = None)"
proof (cases "fc1_create_fan_plot cfg df oc")
  case (Inl a)
  obtain e0 dfe where a: "a = (e0, dfe)" by (cases a)
  from Inl a assms have "e = e0"
    by (simp add: fc1_create_report_def Let_def)
  with fc1_create_fan_plot_error [of cfg df oc e0 dfe] Inl a show ?thesis
    by simp
next
  case (Inr b)
  obtain df1 fig where b: "b = (df1, fig)" by (cases b)
  have p: "fc1_create_fan_plot cfg df oc = Inr (df1, fig)"
    using Inr b by simp
  from fc1_create_fan_plot_Inr [OF p] obtain c where df1: "df1 = df_set df (fc1_output_col oc) c"
    by blast
  have "\<exists>k. e = KeyError k \<and> map_of (columns df1) k = None"
  proof (cases "fc1_summarize_fault_times cfg df1 oc")
    case (Inl e1)
    with assms have "e = e1"
      by (simp add: fc1_create_report_def p Let_def)
    with fc1_summarize_fault_times_error [of cfg df1 oc e1] Inl show ?thesis
      by simp
  next
    case summ: (Inr r)
    show ?thesis
    proof (cases "fc1_create_hist_plot df1 oc")
      case (Inl e2)
      with assms have "e = e2"
        by (simp add: fc1_create_report_def p summ Let_def split: prod.splits)
      with fc1_create_hist_plot_error [of df1 oc e2] Inl show ?thesis
        by simp
    next
      case (Inr q)
      obtain df2 h where q: "q = (df2, h)" by (cases q)
      from fc1_create_hist_plot_Inr [of df1 oc df2 h] Inr q
      obtain c' where df2: "df2 = df_set df1 ''hour_of_the_day_fc1'' c'"
        by auto
      have "\<exists>k. df_get df2 k = Inl e"
        using assms Inr q
        by (auto simp: fc1_create_report_def p summ Let_def split: prod.splits sum.splits)
      then obtain k where "df_get df2 k = Inl e" ..
      from df_get_Inl [OF this] have "e = KeyError k" "map_of (columns df2) k = None"
        by blast+
      with df2 absent_df_set show ?thesis
        by blast
    qed
  qed
  with df1 absent_df_set show ?thesis
    by blast
qed

text \<open>
  C8 (as amended). If a required column of the first report (the flag column, the duct
  static pressure column, the fan speed column, or the setpoint column) is absent from the
  dataset, \<^verbatim>\<open>create_report\<close> ends with an error and returns no document, partial or
  whole. The error is the KeyError of a column that the dataset does not have, or the
  ValueError of the integer cast of the flag column when that comes first. The one
  exception is a setpoint column named \<^verbatim>\<open>hour_of_the_day_fc1\<close>, which the histogram step
  creates before the setpoint is read.
\<close>

theorem missing_column_aborts:
  assumes "map_of (columns df) c = None"
    and "c = fc1_output_col oc \<or> c = duct_static_col cfg \<or> c = supply_vfd_speed_col cfg
      \<or> (c = duct_static_setpoint_col cfg \<and> c \<noteq> ''hour_of_the_day_fc1'')"
  shows "\<exists>e df' doc'. fc1_create_report cfg now df oc = Inl (e, df', doc')
    \<and> (e = ValueError \<or> (\<exists>k. e = KeyError k \<and> map_of (columns df) k = None))"
proof (cases "fc1_create_report cfg now df oc")
  case (Inl a)
  obtain e df' doc' where a: "a = (e, df', doc')" by (cases a)
  from fc1_create_report_error [of cfg now df oc e df' doc'] Inl a show ?thesis
    by simp
next
  case (Inr b)
  then obtain df2 doc where "fc1_create_report cfg now df oc = Inr (df2, doc)"
    by (cases b) auto
  from fc1_create_report_Inr_columns [OF this assms(2)] assms(1) show ?thesis
    by simp
qed

lemma ex_fc1_no_setpoint_report:
  "fc1_create_report ex_cfg1 ex_now ex_fc1_no_setpoint None
     = Inl (KeyError ''duct_static_setpoint'',
            df_set ex_fc1_no_setpoint ''hour_of_the_day_fc1'' (FloatCol [Fin 0, NaN]),
            fc1_title_section
            @ time_series_section
                (FanPlot [0, 3600000000000] (FloatCol [Fin (3 / 2), Fin (1 / 2)])
                   (FloatCol [Fin 90, Fin 80]) (IntCol [1, 0]))
            @ statistics_section (Fin (1 / 25)) (Fin 1) (Fin 0) (Fin 50) (Fin 50)
            @ histogram_section (HistPlot [0, 0, 0, 0, 0, 1, 0, 0, 0, 0])
            @ commentary_section (Fin (3 / 2)) (fc1_commentary (Fin (3 / 2)))
            @ [Heading ''VFD Speed Statistics'' 2, bullet [Describe (FloatCol [Fin 90, Fin 80])],
               Heading ''Duct Pressure Statistics'' 2,
               bullet [Describe (FloatCol [Fin (3 / 2), Fin (1 / 2)])],
               Heading ''Duct Pressure Setpoints Statistics'' 2, empty_bullet])"
proof -
  have fan: "fc1_create_fan_plot ex_cfg1 ex_fc1_no_setpoint None
     = Inr (ex_fc1_no_setpoint,
            FanPlot [0, 3600000000000] (FloatCol [Fin (3 / 2), Fin (1 / 2)])
              (FloatCol [Fin 90, Fin 80]) (IntCol [1, 0]))"
    by (simp add: fc1_create_fan_plot_def fc1_output_col_def ex_cfg1_def ex_fc1_no_setpoint_def
        df_get_def df_set_def Let_def)
  have summ: "fc1_summarize_fault_times ex_cfg1 ex_fc1_no_setpoint None
     = Inr (Fin (1 / 25), Fin 1, Fin 0, Fin 50, Fin 50, Fin (3 / 2))"
    by (simp add: fc1_summarize_fault_times_def fc1_output_col_def ex_cfg1_def
        ex_fc1_no_setpoint_def df_get_def td_div_def ns_per_day_def ns_per_hour_def nanmean_def
        where_cond_def round_half_even_def Let_def)
  have hist: "fc1_create_hist_plot ex_fc1_no_setpoint None
     = Inr (df_set ex_fc1_no_setpoint ''hour_of_the_day_fc1'' (FloatCol [Fin 0, NaN]),
            HistPlot [0, 0, 0, 0, 0, 1, 0, 0, 0, 0])"
    by (simp add: fc1_create_hist_plot_def fc1_output_col_def ex_fc1_no_setpoint_def df_get_def
        where_cond_def hour_of_def ns_per_hour_def histogram_def hist_range_def bin_index_def
        mpl_hist_bins_def upt_rec Let_def)
  have cols: "df_get (df_set ex_fc1_no_setpoint ''hour_of_the_day_fc1'' (FloatCol [Fin 0, NaN]))
        (supply_vfd_speed_col ex_cfg1) = Inr (FloatCol [Fin 90, Fin 80])"
    "df_get (df_set ex_fc1_no_setpoint ''hour_of_the_day_fc1'' (FloatCol [Fin 0, NaN]))
        (duct_static_col ex_cfg1) = Inr (FloatCol [Fin (3 / 2), Fin (1 / 2)])"
    "df_get (df_set ex_fc1_no_setpoint ''hour_of_the_day_fc1'' (FloatCol [Fin 0, NaN]))
        (duct_static_setpoint_col ex_cfg1) = Inl (KeyError ''duct_static_setpoint'')"
    by (simp_all add: df_get_def df_set_def ex_fc1_no_setpoint_def ex_cfg1_def)
  show ?thesis
    by (simp add: fc1_create_report_def fan summ hist cols Let_def fc1_title_section_def
        time_series_section_def statistics_section_def histogram_section_def
        commentary_section_def)
qed

lemma ex_cfg1_hour_report:
  "\<not> isl (fc1_create_report ex_cfg1_hour ex_now ex_fc1_two None)"
proof -
  have fan: "fc1_create_fan_plot ex_cfg1_hour ex_fc1_two None
     = Inr (ex_fc1_two,
            FanPlot [0, 3600000000000] (FloatCol [Fin (3 / 2), Fin (1 / 2)])
              (FloatCol [Fin 90, Fin 80]) (IntCol [1, 0]))"
    by (simp add: fc1_create_fan_plot_def fc1_output_col_def ex_cfg1_hour_def ex_cfg1_def
        ex_fc1_two_def df_get_def df_set_def Let_def)
  have summ: "fc1_summarize_fault_times ex_cfg1_hour ex_fc1_two None
     = Inr (Fin (1 / 25), Fin 1, Fin 0, Fin 50, Fin 50, Fin (3 / 2))"
    by (simp add: fc1_summarize_fault_times_def fc1_output_col_def ex_cfg1_hour_def ex_cfg1_def
        ex_fc1_two_def df_get_def td_div_def ns_per_day_def ns_per_hour_def nanmean_def
        where_cond_def round_half_even_def Let_def)
  have cols: "df_get (df_set ex_fc1_two ''hour_of_the_day_fc1'' (FloatCol [Fin 0, NaN]))
        (supply_vfd_speed_col ex_cfg1_hour) = Inr (FloatCol [Fin 90, Fin 80])"
    "df_get (df_set ex_fc1_two ''hour_of_the_day_fc1'' (FloatCol [Fin 0, NaN]))
        (duct_static_col ex_cfg1_hour) = Inr (FloatCol [Fin (3 / 2), Fin (1 / 2)])"
    "df_get (df_set ex_fc1_two ''hour_of_the_day_fc1'' (FloatCol [Fin 0, NaN]))
        (duct_static_setpoint_col ex_cfg1_hour) = Inr (FloatCol [Fin 0, NaN])"
    by (simp_all add: df_get_def df_set_def ex_fc1_two_def ex_cfg1_hour_def ex_cfg1_def)
  show ?thesis
    by (simp add: fc1_create_report_document [OF fan summ ex_fc1_two_hist cols])
qed

theorem missing_column_aborts_witness:
  "map_of (columns ex_fc1_no_setpoint) (duct_static_setpoint_col ex_cfg1) = None
   \<and> duct_static_setpoint_col ex_cfg1 \<noteq> ''hour_of_the_day_fc1''
   \<and> (\<exists>e df' doc'. fc1_create_report ex_cfg1 ex_now ex_fc1_no_setpoint None = Inl (e, df', doc')
        \<and> (e = ValueError
          \<or> (\<exists>k. e = KeyError k \<and> map_of (columns ex_fc1_no_setpoint) k = None)))"
proof -
  have a: "map_of (columns ex_fc1_no_setpoint) (duct_static_setpoint_col ex_cfg1) = None"
    "duct_static_setpoint_col ex_cfg1 \<noteq> ''hour_of_the_day_fc1''"
    by (simp_all add: ex_fc1_no_setpoint_def ex_cfg1_def)
  from missing_column_aborts [OF a(1), of None ex_cfg1 ex_now] a show ?thesis
    by blast
qed

text \<open>
  The claim as stated has the abort before any section is produced. Without the setpoint
  column the KeyError is raised when 22 elements are already in the local document (which
  is then lost). And with \<^verbatim>\<open>hour_of_the_day_fc1\<close> as the setpoint column, absent from the
  dataset, the report is returned.
\<close>

theorem sections_before_abort_counterexample:
  "map_of (columns ex_fc1_no_setpoint) (duct_static_setpoint_col ex_cfg1) = None
   \<and> fc1_create_report ex_cfg1 ex_now ex_fc1_no_setpoint None
     = Inl (KeyError ''duct_static_setpoint'',
            df_set ex_fc1_no_setpoint ''hour_of_the_day_fc1'' (FloatCol [Fin 0, NaN]),
            snd (snd (projl (fc1_create_report ex_cfg1 ex_now ex_fc1_no_setpoint None))))
   \<and> length (snd (snd (projl (fc1_create_report ex_cfg1 ex_now ex_fc1_no_setpoint None)))) = 22
   \<and> map_of (columns ex_fc1_two) (duct_static_setpoint_col ex_cfg1_hour) = None
   \<and> \<not> isl (fc1_create_report ex_cfg1_hour ex_now ex_fc1_two None)"
  using ex_cfg1_hour_report
  by (simp add: ex_fc1_no_setpoint_report section_defs empty_bullet_def)
    (simp add: ex_fc1_no_setpoint_def ex_fc1_two_def ex_cfg1_def ex_cfg1_hour_def)

subsection \<open>What the call writes into the DataFrame\<close>

lemma fc1_create_fan_plot_Inl:
  assumes "fc1_create_fan_plot cfg df oc = Inl (e, df')"
  shows "df' = df \<or> (\<exists>c. df' = df_set df (fc1_output_col oc) c)"
  using assms by (auto simp: fc1_create_fan_plot_def Let_def split: sum.splits)

lemma fc2_create_plot_Inl:
  assumes "fc2_create_plot cfg df oc = Inl (e, df')"
  shows "df' = df \<or> (\<exists>c. df' = df_set df (fc2_output_col oc) c)"
  using assms by (auto simp: fc2_create_plot_def Let_def split: sum.splits)

lemma fc1_report_frame:
  "frame_after (fc1_create_report cfg now df oc) = df
   \<or> (\<exists>c. frame_after (fc1_create_report cfg now df oc) = df_set df (fc1_output_col oc) c)
   \<or> (\<exists>c c'. frame_after (fc1_create_report cfg now df oc)
        = df_set (df_set df (fc1_output_col oc) c) ''hour_of_the_day_fc1'' c')"
proof (cases "fc1_create_fan_plot cfg df oc")
  case (Inl a)
  obtain e df' where a: "a = (e, df')" by (cases a)
  from fc1_create_fan_plot_Inl [of cfg df oc e df'] Inl a show ?thesis
    by (auto simp: fc1_create_report_def Let_def)
next
  case (Inr b)
  obtain df1 fig where b: "b = (df1, fig)" by (cases b)
  from fc1_create_fan_plot_Inr [of cfg df oc df1 fig] Inr b
  obtain c where df1: "df1 = df_set df (fc1_output_col oc) c"
    by auto
  have p: "fc1_create_fan_plot cfg df oc = Inr (df1, fig)"
    using Inr b by simp
  have "frame_after (fc1_create_report cfg now df oc) = df1
    \<or> (\<exists>c'. frame_after (fc1_create_report cfg now df oc)
          = df_set df1 ''hour_of_the_day_fc1'' c')"
  proof (cases "fc1_summarize_fault_times cfg df1 oc")
    case (Inl e)
    then show ?thesis
      by (simp add: fc1_create_report_def p Let_def)
  next
    case summ: (Inr r)
    show ?thesis
    proof (cases "fc1_create_hist_plot df1 oc")
      case (Inl e)
      then show ?thesis
        by (simp add: fc1_create_report_def p summ Let_def split: prod.splits)
    next
      case (Inr q)
      obtain df2 h where q: "q = (df2, h)" by (cases q)
      from fc1_create_hist_plot_Inr [of df1 oc df2 h] Inr q
      obtain c' where df2: "df2 = df_set df1 ''hour_of_the_day_fc1'' c'"
        by auto
      have "frame_after (fc1_create_report cfg now df oc) = df2"
        using Inr q
        by (simp add: fc1_create_report_def p summ Let_def split: prod.splits sum.splits)
      with df2 show ?thesis by blast
    qed
  qed
  with df1 show ?thesis by blast
qed

lemma fc2_report_frame:
  "frame_after (fc2_create_report cfg now df oc) = df
   \<or> (\<exists>c. frame_after (fc2_create_report cfg now df oc) = df_set df (fc2_output_col oc) c)
   \<or> (\<exists>c c'. frame_after (fc2_create_report cfg now df oc)
        = df_set (df_set df (fc2_output_col oc) c) ''hour_of_the_day_fc2'' c')"
proof (cases "fc2_create_plot cfg df oc")
  case (Inl a)
  obtain e df' where a: "a = (e, df')" by (cases a)
  from fc2_create_plot_Inl [of cfg df oc e df'] Inl a show ?thesis
    by (auto simp: fc2_create_report_def Let_def)
next
  case (Inr b)
  obtain df1 fig where b: "b = (df1, fig)" by (cases b)
  from fc2_create_plot_Inr [of cfg df oc df1 fig] Inr b
  obtain c where df1: "df1 = df_set df (fc2_output_col oc) c"
    by auto
  have p: "fc2_create_plot cfg df oc = Inr (df1, fig)"
    using Inr b by simp
  have "frame_after (fc2_create_report cfg now df oc) = df1
    \<or> (\<exists>c'. frame_after (fc2_create_report cfg now df oc)
          = df_set df1 ''hour_of_the_day_fc2'' c')"
  proof (cases "fc2_summarize_fault_times cfg df1 oc")
    case (Inl e)
    then show ?thesis
      by (simp add: fc2_create_report_def p Let_def)
  next
    case summ: (Inr r)
    show ?thesis
    proof (cases "fc2_create_hist_plot df1 oc")
      case (Inl e)
      then show ?thesis
        by (simp add: fc2_create_report_def p summ Let_def split: prod.splits)
    next
      case (Inr q)
      obtain df2 h where q: "q = (df2, h)" by (cases q)
      from fc2_create_hist_plot_Inr [of df1 oc df2 h] Inr q
      obtain c' where df2: "df2 = df_set df1 ''hour_of_the_day_fc2'' c'"
        by auto
      have "frame_after (fc2_create_report cfg now df oc) = df2"
        using Inr q
        by (simp add: fc2_create_report_def p summ Let_def split: prod.splits sum.splits)
      with df2 show ?thesis by blast
    qed
  qed
  with df1 show ?thesis by blast
qed

lemma frame_unchanged_elsewhere:
  assumes "F = df \<or> (\<exists>c. F = df_set df flag c)
      \<or> (\<exists>c c'. F = df_set (df_set df flag c) hour c')"
  shows "index F = index df"
    and "k \<noteq> flag \<and> k \<noteq> hour \<longrightarrow> map_of (columns F) k = map_of (columns df) k"
  using assms by (auto simp: index_df_set map_of_df_set)

lemma fc1_report_flag_cast:
  assumes "fc1_create_report cfg now df oc = Inr (df2, doc)"
    and "fc1_output_col oc \<noteq> ''hour_of_the_day_fc1''"
  shows "\<exists>flag. df_get df (fc1_output_col oc) = Inr flag
    \<and> astype_int flag = df_get df2 (fc1_output_col oc)"
proof -
  from fc1_create_report_stages [OF assms(1)]
  obtain df1 fig h where
    s: "fc1_create_fan_plot cfg df oc = Inr (df1, fig)"
      "fc1_create_hist_plot df1 oc = Inr (df2, h)"
    by blast
  from fc1_create_fan_plot_Inr [OF s(1)] obtain flag flag_int where
    f: "df_get df (fc1_output_col oc) = Inr flag" "astype_int flag = Inr flag_int"
      "df1 = df_set df (fc1_output_col oc) flag_int"
    by blast
  from fc1_create_hist_plot_Inr [OF s(2)] obtain hc where
    h: "df2 = df_set df1 ''hour_of_the_day_fc1'' hc"
    by blast
  have "df_get df2 (fc1_output_col oc) = Inr flag_int"
    using assms(2) by (simp add: h f(3) df_get_df_set)
  with f show ?thesis by simp
qed

lemma fc2_report_flag_cast:
  assumes "fc2_create_report cfg now df oc = Inr (df2, doc)"
    and "fc2_output_col oc \<noteq> ''hour_of_the_day_fc2''"
  shows "\<exists>flag. df_get df (fc2_output_col oc) = Inr flag
    \<and> astype_int flag = df_get df2 (fc2_output_col oc)"
proof -
  from fc2_create_report_stages [OF assms(1)]
  obtain df1 fig h where
    s: "fc2_create_plot cfg df oc = Inr (df1, fig)"
      "fc2_create_hist_plot df1 oc = Inr (df2, h)"
    by blast
  from fc2_create_plot_Inr [OF s(1)] obtain flag flag_int where
    f: "df_get df (fc2_output_col oc) = Inr flag" "astype_int flag = Inr flag_int"
      "df1 = df_set df (fc2_output_col oc) flag_int"
    by blast
  from fc2_create_hist_plot_Inr [OF s(2)] obtain hc where
    h: "df2 = df_set df1 ''hour_of_the_day_fc2'' hc"
    by blast
  have "df_get df2 (fc2_output_col oc) = Inr flag_int"
    using assms(2) by (simp add: h f(3) df_get_df_set)
  with f show ?thesis by simp
qed

text \<open>
  C9 (as amended). A call of \<^verbatim>\<open>create_report\<close> (of either report class, returning or
  raising) leaves the index of the caller's DataFrame and every column other than the flag
  column and the hour-of-day column as they were. The flag column is written: when the
  report is returned, it holds the integer cast (\<^verbatim>\<open>astype(int)\<close>) of the original flag
  column.
\<close>

theorem frame_changes_only_flag_and_hour:
  "index (frame_after (fc1_create_report cfg1 now1 df1 oc1)) = index df1
   \<and> (\<forall>c. c \<noteq> fc1_output_col oc1 \<and> c \<noteq> ''hour_of_the_day_fc1''
        \<longrightarrow> map_of (columns (frame_after (fc1_create_report cfg1 now1 df1 oc1))) c
            = map_of (columns df1) c)
   \<and> (fc1_create_report cfg1 now1 df1 oc1 = Inr (dfa, doc1)
        \<and> fc1_output_col oc1 \<noteq> ''hour_of_the_day_fc1''
      \<longrightarrow> (\<exists>flag. df_get df1 (fc1_output_col oc1) = Inr flag
            \<and> astype_int flag = df_get dfa (fc1_output_col oc1)))
   \<and> index (frame_after (fc2_create_report cfg2 now2 df2 oc2)) = index df2
   \<and> (\<forall>c. c \<noteq> fc2_output_col oc2 \<and> c \<noteq> ''hour_of_the_day_fc2''
        \<longrightarrow> map_of (columns (frame_after (fc2_create_report cfg2 now2 df2 oc2))) c
            = map_of (columns df2) c)
   \<and> (fc2_create_report cfg2 now2 df2 oc2 = Inr (dfc, doc2)
        \<and> fc2_output_col oc2 \<noteq> ''hour_of_the_day_fc2''
      \<longrightarrow> (\<exists>flag. df_get df2 (fc2_output_col oc2) = Inr flag
            \<and> astype_int flag = df_get dfc (fc2_output_col oc2)))"
proof -
  note a = frame_unchanged_elsewhere [OF fc1_report_frame [of cfg1 now1 df1 oc1]]
  note b = frame_unchanged_elsewhere [OF fc2_report_frame [of cfg2 now2 df2 oc2]]
  from a(1) a(2) b(1) b(2)
    fc1_report_flag_cast [of cfg1 now1 df1 oc1 dfa doc1]
    fc2_report_flag_cast [of cfg2 now2 df2 oc2 dfc doc2]
  show ?thesis
    by blast
qed

lemma ex_fc1_bool_report:
  "fc1_create_report ex_cfg1 ex_now ex_fc1_bool None
     = fc1_create_report ex_cfg1 ex_now ex_fc1_two None"
proof -
  have fan: "fc1_create_fan_plot ex_cfg1 ex_fc1_bool None
     = Inr (ex_fc1_two,
            FanPlot [0, 3600000000000] (FloatCol [Fin (3 / 2), Fin (1 / 2)])
              (FloatCol [Fin 90, Fin 80]) (IntCol [1, 0]))"
    by (simp add: fc1_create_fan_plot_def fc1_output_col_def ex_cfg1_def ex_fc1_bool_def
        ex_fc1_two_def df_get_def df_set_def bool_int_def Let_def)
  show ?thesis
    by (simp add: fc1_create_report_document [OF fan ex_fc1_two_summary ex_fc1_two_hist
          ex_fc1_two_columns] ex_fc1_two_report nanstd_def)
qed

theorem frame_changes_only_flag_and_hour_witness:
  "fc1_create_report ex_cfg1 ex_now ex_fc1_bool None
     = Inr (fst (projr (fc1_create_report ex_cfg1 ex_now ex_fc1_bool None)),
            snd (projr (fc1_create_report ex_cfg1 ex_now ex_fc1_bool None)))
   \<and> fc1_output_col None \<noteq> ''hour_of_the_day_fc1''
   \<and> ''duct_static'' \<noteq> fc1_output_col None \<and> ''duct_static'' \<noteq> ''hour_of_the_day_fc1''
   \<and> map_of (columns (frame_after (fc1_create_report ex_cfg1 ex_now ex_fc1_bool None)))
        ''duct_static''
      = map_of (columns ex_fc1_bool) ''duct_static''
   \<and> (\<exists>flag. df_get ex_fc1_bool (fc1_output_col None) = Inr flag
        \<and> astype_int flag
          = df_get (fst (projr (fc1_create_report ex_cfg1 ex_now ex_fc1_bool None)))
              (fc1_output_col None))
   \<and> fc2_create_report ex_cfg2 ex_now ex_fc2_two None
     = Inr (fst (projr (fc2_create_report ex_cfg2 ex_now ex_fc2_two None)),
            snd (projr (fc2_create_report ex_cfg2 ex_now ex_fc2_two None)))
   \<and> fc2_output_col None \<noteq> ''hour_of_the_day_fc2''
   \<and> ''mat'' \<noteq> fc2_output_col None \<and> ''mat'' \<noteq> ''hour_of_the_day_fc2''
   \<and> map_of (columns (frame_after (fc2_create_report ex_cfg2 ex_now ex_fc2_two None))) ''mat''
      = map_of (columns ex_fc2_two) ''mat''
   \<and> (\<exists>flag. df_get ex_fc2_two (fc2_output_col None) = Inr flag
        \<and> astype_int flag
          = df_get (fst (projr (fc2_create_report ex_cfg2 ex_now ex_fc2_two None)))
              (fc2_output_col None))"
proof -
  let ?A = "fc1_create_report ex_cfg1 ex_now ex_fc1_bool None"
  let ?C = "fc2_create_report ex_cfg2 ex_now ex_fc2_two None"
  have A: "?A = Inr (fst (projr ?A), snd (projr ?A))"
    by (simp add: ex_fc1_bool_report ex_fc1_two_report)
  have C: "?C = Inr (fst (projr ?C), snd (projr ?C))"
    by (simp add: ex_fc2_two_report)
  have n: "fc1_output_col None \<noteq> ''hour_of_the_day_fc1''"
    "''duct_static'' \<noteq> fc1_output_col None" "''duct_static'' \<noteq> ''hour_of_the_day_fc1''"
    "fc2_output_col None \<noteq> ''hour_of_the_day_fc2''"
    "''mat'' \<noteq> fc2_output_col None" "''mat'' \<noteq> ''hour_of_the_day_fc2''"
    by (simp_all add: fc1_output_col_def fc2_output_col_def)
  note t = frame_changes_only_flag_and_hour [of ex_cfg1 ex_now ex_fc1_bool None
      "fst (projr ?A)" "snd (projr ?A)" ex_cfg2 ex_now ex_fc2_two None
      "fst (projr ?C)" "snd (projr ?C)"]
  from t A C n show ?thesis
    by blast
qed

text \<open>
  The claim as stated leaves the flag column with its original values and representation.
  A boolean flag column is an integer column after the call.
\<close>

theorem flag_column_rewritten_counterexample:
  "map_of (columns ex_fc1_bool) ''fc1_flag'' = Some (BoolCol [True, False])
   \<and> map_of (columns (frame_after (fc1_create_report ex_cfg1 ex_now ex_fc1_bool None)))
        ''fc1_flag''
      = Some (IntCol [1, 0])
   \<and> BoolCol [True, False] \<noteq> IntCol [1, 0]"
  by (simp add: ex_fc1_bool_report ex_fc1_two_report)
    (simp add: ex_fc1_bool_def ex_fc1_two_def df_set_def)

end
